theory Spec2Isabelle
  imports Main "HOL-Library.AList" "HOL-Library.Monad_Syntax"
begin

section \<open>Values of the workflow: JSON documents and decimal numerals\<close>

text \<open>
  The repository declares one Step Functions state machine, \<open>UserCreation\<close>, in
  \<open>lib/state-machine-stack.ts\<close>. The states of that machine exchange one JSON document
  (the state input and output), so the model starts with JSON values.
  Numbers are integers: the only numbers of the workflow are the user ids.
\<close>

datatype json =
    JNull
  | JBool bool
  | JNumber int
  | JString string
  | JArray "json list"
  | JObject "(string \<times> json) list"

fun get_field :: "string \<Rightarrow> json \<Rightarrow> json option" where
  "get_field k (JObject kvs) = map_of kvs k"
| "get_field k _ = None"

text \<open>
  A reference path \<open>$.a.b\<close> is the list of its field names, \<open>[''a'', ''b'']\<close>;
  a path that is not in the document selects nothing.
\<close>

fun JsonPath :: "string list \<Rightarrow> json \<Rightarrow> json option" where
  "JsonPath [] j = Some j"
| "JsonPath (k # ks) j = (case get_field k j of None \<Rightarrow> None | Some j' \<Rightarrow> JsonPath ks j')"

text \<open>
  Writing a result at \<open>$.k\<close> adds the field \<open>k\<close> to the document, or replaces it when
  the document has it already, and keeps every other field. Only an object has fields.
\<close>

fun set_field :: "string \<Rightarrow> json \<Rightarrow> json \<Rightarrow> json option" where
  "set_field k v (JObject kvs) = Some (JObject (AList.update k v kvs))"
| "set_field k v _ = None"

fun as_string :: "json \<Rightarrow> string option" where
  "as_string (JString s) = Some s"
| "as_string _ = None"

subsection \<open>Decimal numerals\<close>

definition digit_char :: "nat \<Rightarrow> char" where
  "digit_char d = ''0123456789'' ! d"

definition is_digit :: "char \<Rightarrow> bool" where
  "is_digit c = (48 \<le> (of_char c :: nat) \<and> (of_char c :: nat) \<le> 57)"

definition digit_val :: "char \<Rightarrow> nat" where
  "digit_val c = of_char c - 48"

fun string_of_nat :: "nat \<Rightarrow> string" where
  "string_of_nat n =
     (if n < 10 then [digit_char n] else string_of_nat (n div 10) @ [digit_char (n mod 10)])"

declare string_of_nat.simps [simp del]

definition nat_of_string :: "string \<Rightarrow> nat option" where
  "nat_of_string s =
     (if s \<noteq> [] \<and> list_all is_digit s
      then Some (foldl (\<lambda>a c. 10 * a + digit_val c) 0 s) else None)"

definition string_of_int :: "int \<Rightarrow> string" where
  "string_of_int i =
     (if i < 0 then CHR ''-'' # string_of_nat (nat (- i)) else string_of_nat (nat i))"

definition int_of_string :: "string \<Rightarrow> int option" where
  "int_of_string s =
     (case s of
        [] \<Rightarrow> None
      | c # r \<Rightarrow>
          if c = CHR ''-'' then map_option (\<lambda>n. - int n) (nat_of_string r)
          else map_option int (nat_of_string s))"


section \<open>Intrinsic functions of the state language\<close>

text \<open>
  The workflow uses three intrinsic functions: \<open>States.Format\<close>, \<open>States.StringToJson\<close>
  and \<open>States.MathAdd\<close>. \<open>States.Format\<close> replaces each \<open>{}\<close> of the template by the
  text of the next argument; the workflow applies \<open>States.StringToJson\<close> to the decimal
  text of a number attribute and \<open>States.MathAdd\<close> to integers (the limits the platform
  puts on the size of the operands are outside the model).
\<close>

fun arg_text :: "json \<Rightarrow> string option" where
  "arg_text (JString s) = Some s"
| "arg_text (JNumber n) = Some (string_of_int n)"
| "arg_text _ = None"

fun fill :: "string \<Rightarrow> string list \<Rightarrow> string option" where
  "fill [] as = (if as = [] then Some [] else None)"
| "fill [c] as = (if as = [] then Some [c] else None)"
| "fill (c # d # r) as =
     (if c = CHR ''{'' \<and> d = CHR ''}''
      then (case as of [] \<Rightarrow> None | a # as' \<Rightarrow> map_option ((@) a) (fill r as'))
      else map_option ((#) c) (fill (d # r) as))"

definition States_Format :: "string \<Rightarrow> json list \<Rightarrow> string option" where
  "States_Format template args =
     (case those (map arg_text args) of None \<Rightarrow> None | Some ts \<Rightarrow> fill template ts)"

definition States_StringToJson :: "string \<Rightarrow> json option" where
  "States_StringToJson s = map_option JNumber (int_of_string s)"

fun States_MathAdd :: "json \<Rightarrow> json \<Rightarrow> json option" where
  "States_MathAdd (JNumber a) (JNumber b) = Some (JNumber (a + b))"
| "States_MathAdd _ _ = None"

definition string_at :: "string list \<Rightarrow> json \<Rightarrow> string option" where
  "string_at p j = Option.bind (JsonPath p j) as_string"

text \<open>
  A field \<open>"N.$": path\<close> sends the string at the path as a number attribute; the store
  accepts it when it is a numeral.
\<close>

definition number_at :: "string list \<Rightarrow> json \<Rightarrow> int option" where
  "number_at p j = Option.bind (string_at p j) int_of_string"

section \<open>The services the tasks call\<close>

text \<open>
  The repository calls two services and defines neither. This section gives the behaviour
  of the five actions that the tasks name: \<open>getItem\<close>, \<open>transactWriteItems\<close>,
  \<open>updateItem\<close> and \<open>deleteItem\<close> of the table, and \<open>adminCreateUser\<close> of the user
  pool. A call returns \<open>Inr\<close> with its answer, or \<open>Inl\<close> with the name of the error it
  raises; a call that raises an error changes nothing.
\<close>

subsection \<open>The table\<close>

text \<open>
  The construct declares one table, \<open>SampleUsers\<close>, with the string keys \<open>PK\<close> and
  \<open>SK\<close>. An item is a list of named attributes, each a string \<open>S\<close> or a number \<open>N\<close>
  (an integer here: the workflow stores user ids), and the table maps a pair of key values
  to the item stored there.
\<close>

datatype attr = S string | N int

type_synonym item = "(string \<times> attr) list"

type_synonym dynamo_table = "string \<times> string \<rightharpoonup> item"

fun attr_json :: "attr \<Rightarrow> json" where
  "attr_json (S s) = JObject [(''S'', JString s)]"
| "attr_json (N n) = JObject [(''N'', JString (string_of_int n))]"

definition item_json :: "item \<Rightarrow> json" where
  "item_json it = JObject (map (\<lambda>(k, a). (k, attr_json a)) it)"

definition key_of :: "item \<Rightarrow> (string \<times> string) option" where
  "key_of it =
     (case (map_of it ''PK'', map_of it ''SK'') of
        (Some (S p), Some (S s)) \<Rightarrow> Some (p, s)
      | _ \<Rightarrow> None)"

text \<open>
  The expressions of the source: \<open>attribute_not_exists(PK)\<close> is
  \<open>attribute_not_exists ''PK''\<close>, \<open>LastId = :previousUserId\<close> is
  \<open>Equals ''LastId'' '':previousUserId''\<close> and \<open>SET LastId = :newUserId\<close> is
  \<open>SET ''LastId'' '':newUserId''\<close>.
\<close>

datatype condition = attribute_not_exists string | Equals string string

datatype update_expr = SET string string

record ddb_params =
  TableName :: string
  Key :: "item option"
  Item :: "item option"
  ConditionExpression :: "condition option"
  UpdateExpression :: "update_expr option"
  ExpressionAttributeValues :: "(string \<times> attr) list"
  ConsistentRead :: bool

datatype transact_item = Put ddb_params | Update ddb_params

fun holds :: "condition option \<Rightarrow> (string \<times> attr) list \<Rightarrow> item option \<Rightarrow> bool" where
  "holds None vs it = True"
| "holds (Some (attribute_not_exists a)) vs it =
     (case it of None \<Rightarrow> True | Some i \<Rightarrow> map_of i a = None)"
| "holds (Some (Equals a v)) vs it =
     (case it of
        None \<Rightarrow> False
      | Some i \<Rightarrow> (case map_of i a of None \<Rightarrow> False | Some x \<Rightarrow> map_of vs v = Some x))"

fun assign :: "update_expr option \<Rightarrow> (string \<times> attr) list \<Rightarrow> item \<Rightarrow> item" where
  "assign None vs i = i"
| "assign (Some (SET a v)) vs i =
     (case map_of vs v of None \<Rightarrow> i | Some x \<Rightarrow> AList.update a x i)"

fun target :: "transact_item \<Rightarrow> (string \<times> string) option" where
  "target (Put p) = Option.bind (Item p) key_of"
| "target (Update p) = Option.bind (Key p) key_of"

fun accepted :: "dynamo_table \<Rightarrow> transact_item \<Rightarrow> bool" where
  "accepted tb (Put p) =
     (case target (Put p) of
        None \<Rightarrow> False
      | Some k \<Rightarrow> holds (ConditionExpression p) (ExpressionAttributeValues p) (tb k))"
| "accepted tb (Update p) =
     (case target (Update p) of
        None \<Rightarrow> False
      | Some k \<Rightarrow> holds (ConditionExpression p) (ExpressionAttributeValues p) (tb k))"

fun apply_write :: "transact_item \<Rightarrow> dynamo_table \<Rightarrow> dynamo_table" where
  "apply_write (Put p) tb =
     (case (Item p, target (Put p)) of
        (Some i, Some k) \<Rightarrow> tb(k \<mapsto> i)
      | _ \<Rightarrow> tb)"
| "apply_write (Update p) tb =
     (case (Key p, target (Update p)) of
        (Some ka, Some k) \<Rightarrow>
          tb(k \<mapsto> assign (UpdateExpression p) (ExpressionAttributeValues p)
                    (case tb k of None \<Rightarrow> ka | Some i \<Rightarrow> i))
      | _ \<Rightarrow> tb)"

text \<open>
  \<open>transactWriteItems\<close> is all or nothing: every condition is checked against the table
  as it is, and the writes are made only when all of them hold. A request without a key,
  or with two operations on one item, is rejected as invalid.
\<close>

definition transactWriteItems ::
  "transact_item list \<Rightarrow> dynamo_table \<Rightarrow> (string + json) \<times> dynamo_table" where
  "transactWriteItems xs tb =
     (if None \<in> set (map target xs) \<or> \<not> distinct (map target xs)
      then (Inl ''DynamoDb.DynamoDbException'', tb)
      else if list_all (accepted tb) xs then (Inr (JObject []), fold apply_write xs tb)
      else (Inl ''DynamoDb.TransactionCanceledException'', tb))"

text \<open>
  \<open>updateItem\<close> makes its update when its condition holds of the item as stored, and
  raises \<open>ConditionalCheckFailedException\<close> otherwise (a comparison fails when there is no
  item). \<open>getItem\<close> answers with the item, under \<open>Item\<close>, when there is one.
  \<open>deleteItem\<close> removes the item, and succeeds when there is none.
\<close>

definition updateItem :: "ddb_params \<Rightarrow> dynamo_table \<Rightarrow> (string + json) \<times> dynamo_table" where
  "updateItem p tb =
     (case target (Update p) of
        None \<Rightarrow> (Inl ''DynamoDb.DynamoDbException'', tb)
      | Some k \<Rightarrow>
          if accepted tb (Update p) then (Inr (JObject []), apply_write (Update p) tb)
          else (Inl ''DynamoDb.ConditionalCheckFailedException'', tb))"

definition getItem :: "ddb_params \<Rightarrow> dynamo_table \<Rightarrow> (string + json) \<times> dynamo_table" where
  "getItem p tb =
     (case Option.bind (Key p) key_of of
        None \<Rightarrow> (Inl ''DynamoDb.DynamoDbException'', tb)
      | Some k \<Rightarrow>
          (Inr (case tb k of None \<Rightarrow> JObject [] | Some i \<Rightarrow> JObject [(''Item'', item_json i)]),
           tb))"

definition deleteItem :: "ddb_params \<Rightarrow> dynamo_table \<Rightarrow> (string + json) \<times> dynamo_table" where
  "deleteItem p tb =
     (case Option.bind (Key p) key_of of
        None \<Rightarrow> (Inl ''DynamoDb.DynamoDbException'', tb)
      | Some k \<Rightarrow>
          if holds (ConditionExpression p) (ExpressionAttributeValues p) (tb k)
          then (Inr (JObject []), tb(k := None))
          else (Inl ''DynamoDb.ConditionalCheckFailedException'', tb))"

subsection \<open>The user pool\<close>

record cognito_params =
  UserPoolId :: string
  Username :: string
  UserAttributes :: "(string \<times> string) list"

type_synonym user_pool = "string \<rightharpoonup> (string \<times> string) list"

text \<open>
  The pool maps a user name to the attributes of the account. \<open>adminCreateUser\<close> raises
  \<open>UsernameExistsException\<close> when the pool has an account of that name; otherwise it
  stores the account and answers with the user it created.
\<close>

definition adminCreateUser ::
  "cognito_params \<Rightarrow> user_pool \<Rightarrow> (string + json) \<times> user_pool" where
  "adminCreateUser p pl =
     (if pl (Username p) \<noteq> None
      then (Inl ''CognitoIdentityProvider.UsernameExistsException'', pl)
      else (Inr (JObject [(''User'', JObject
                   [(''Username'', JString (Username p)),
                    (''Attributes'', JArray (map (\<lambda>(n, v).
                        JObject [(''Name'', JString n), (''Value'', JString v)])
                      (UserAttributes p)))])]),
            pl(Username p \<mapsto> UserAttributes p)))"

subsection \<open>A service call\<close>

datatype payload =
    Params ddb_params
  | TransactItems "transact_item list"
  | UserParams cognito_params

record world =
  table :: dynamo_table
  userPool :: user_pool

definition on_table ::
  "(dynamo_table \<Rightarrow> (string + json) \<times> dynamo_table) \<Rightarrow> world \<Rightarrow> (string + json) \<times> world" where
  "on_table f w = (case f (table w) of (r, tb) \<Rightarrow> (r, w\<lparr>table := tb\<rparr>))"

definition on_pool ::
  "(user_pool \<Rightarrow> (string + json) \<times> user_pool) \<Rightarrow> world \<Rightarrow> (string + json) \<times> world" where
  "on_pool f w = (case f (userPool w) of (r, pl) \<Rightarrow> (r, w\<lparr>userPool := pl\<rparr>))"

definition call :: "string \<Rightarrow> string \<Rightarrow> payload \<Rightarrow> world \<Rightarrow> (string + json) \<times> world" where
  "call svc act p w =
     (if svc = ''dynamodb'' \<and> act = ''getItem'' then
        (case p of Params q \<Rightarrow> on_table (getItem q) w | _ \<Rightarrow> (Inl ''States.Runtime'', w))
      else if svc = ''dynamodb'' \<and> act = ''transactWriteItems'' then
        (case p of TransactItems xs \<Rightarrow> on_table (transactWriteItems xs) w
         | _ \<Rightarrow> (Inl ''States.Runtime'', w))
      else if svc = ''dynamodb'' \<and> act = ''updateItem'' then
        (case p of Params q \<Rightarrow> on_table (updateItem q) w | _ \<Rightarrow> (Inl ''States.Runtime'', w))
      else if svc = ''dynamodb'' \<and> act = ''deleteItem'' then
        (case p of Params q \<Rightarrow> on_table (deleteItem q) w | _ \<Rightarrow> (Inl ''States.Runtime'', w))
      else if svc = ''cognitoidentityprovider'' \<and> act = ''adminCreateUser'' then
        (case p of UserParams q \<Rightarrow> on_pool (adminCreateUser q) w
         | _ \<Rightarrow> (Inl ''States.Runtime'', w))
      else (Inl ''States.Runtime'', w))"


section \<open>The states of the machine\<close>

text \<open>
  A \<open>CallAwsService\<close> task evaluates its \<open>parameters\<close> on the state input, calls the
  action of the service, passes the result through \<open>resultSelector\<close> and puts it into
  the input at \<open>resultPath\<close>: \<open>Whole\<close> is the default \<open>$\<close> (the result replaces the
  input), \<open>At k\<close> is \<open>$.k\<close> and \<open>DISCARD\<close> is \<open>JsonPath.DISCARD\<close> (the input goes on
  unchanged). A catcher names the errors it handles, the path where the error is recorded
  and the state that handles it.
\<close>

datatype result_path = Whole | At string | DISCARD

record catcher =
  errors :: "string list"
  errorPath :: result_path
  handler :: string

record task =
  state_name :: string
  service :: string
  action :: string
  iamResources :: "string list"
  parameters :: "json \<Rightarrow> payload option"
  resultSelector :: "(json \<Rightarrow> json option) option"
  resultPath :: result_path
  catchers :: "catcher list"
  next_state :: "string option"

datatype state = CallAwsService task | Pass "string option" | Fail

record ITable =
  tableName :: string
  tableArn :: string

record IUserPool =
  userPoolId :: string
  userPoolArn :: string

definition buildCreateCognitoUser :: "IUserPool \<Rightarrow> task" where
  "buildCreateCognitoUser u =
     \<lparr>state_name = ''CreateCognitoUser'',
      service = ''cognitoidentityprovider'',
      action = ''adminCreateUser'',
      iamResources = [userPoolArn u],
      parameters = (\<lambda>inp. do {
        username \<leftarrow> string_at [''context'', ''userId''] inp;
        email \<leftarrow> string_at [''emailAddress''] inp;
        Some (UserParams
          \<lparr>UserPoolId = userPoolId u,
           Username = username,
           UserAttributes = [(''email'', email), (''email_verified'', ''true'')]\<rparr>)
      }),
      resultSelector = None,
      resultPath = Whole,
      catchers = [],
      next_state = None\<rparr>"

definition buildRollbackUser :: "ITable \<Rightarrow> task" where
  "buildRollbackUser t =
     \<lparr>state_name = ''RollbackUser'',
      service = ''dynamodb'',
      action = ''deleteItem'',
      iamResources = [tableArn t],
      parameters = (\<lambda>inp. do {
        userId \<leftarrow> JsonPath [''context'', ''userId''] inp;
        pk \<leftarrow> States_Format ''USERPROFILE#{}'' [userId];
        sk \<leftarrow> States_Format ''USERPROFILE#{}'' [userId];
        Some (Params
          \<lparr>TableName = tableName t,
           Key = Some [(''PK'', S pk), (''SK'', S sk)],
           Item = None,
           ConditionExpression = None,
           UpdateExpression = None,
           ExpressionAttributeValues = [],
           ConsistentRead = False\<rparr>)
      }),
      resultSelector = None,
      resultPath = At ''results'',
      catchers = [],
      next_state = None\<rparr>"

definition buildCorrectLastId :: "ITable \<Rightarrow> task" where
  "buildCorrectLastId t =
     \<lparr>state_name = ''CorrectLastId'',
      service = ''dynamodb'',
      action = ''updateItem'',
      iamResources = [tableArn t],
      parameters = (\<lambda>inp. do {
        previousUserId \<leftarrow> number_at [''context'', ''previousUserId''] inp;
        newUserId \<leftarrow> number_at [''context'', ''userId''] inp;
        Some (Params
          \<lparr>TableName = tableName t,
           Key = Some [(''PK'', S ''USERMETADATA''), (''SK'', S ''USERMETADATA'')],
           Item = None,
           ConditionExpression = Some (Equals ''LastId'' '':previousUserId''),
           UpdateExpression = Some (SET ''LastId'' '':newUserId''),
           ExpressionAttributeValues =
             [('':previousUserId'', N previousUserId), ('':newUserId'', N newUserId)],
           ConsistentRead = False\<rparr>)
      }),
      resultSelector = None,
      resultPath = At ''results'',
      catchers = [],
      next_state = None\<rparr>"

definition buildCreateDynamoDBUser :: "ITable \<Rightarrow> task" where
  "buildCreateDynamoDBUser t =
     \<lparr>state_name = ''CreateDynamoDBUser'',
      service = ''dynamodb'',
      action = ''transactWriteItems'',
      iamResources = [tableArn t],
      parameters = (\<lambda>inp. do {
        userId \<leftarrow> JsonPath [''context'', ''userId''] inp;
        pk \<leftarrow> States_Format ''USERPROFILE#{}'' [userId];
        sk \<leftarrow> States_Format ''USERPROFILE#{}'' [userId];
        firstName \<leftarrow> string_at [''firstName''] inp;
        lastName \<leftarrow> string_at [''lastName''] inp;
        emailAddress \<leftarrow> string_at [''emailAddress''] inp;
        phoneNumber \<leftarrow> string_at [''phoneNumber''] inp;
        previousUserId \<leftarrow> number_at [''context'', ''previousUserId''] inp;
        newUserId \<leftarrow> number_at [''context'', ''userId''] inp;
        Some (TransactItems
          [Put
             \<lparr>TableName = tableName t,
              Key = None,
              Item = Some
                [(''PK'', S pk),
                 (''SK'', S sk),
                 (''FirstName'', S firstName),
                 (''LastName'', S lastName),
                 (''EmailAddress'', S emailAddress),
                 (''PhoneNumber'', S phoneNumber)],
              ConditionExpression = Some (attribute_not_exists ''PK''),
              UpdateExpression = None,
              ExpressionAttributeValues = [],
              ConsistentRead = False\<rparr>,
           Update
             \<lparr>TableName = tableName t,
              Key = Some [(''PK'', S ''USERMETADATA''), (''SK'', S ''USERMETADATA'')],
              Item = None,
              ConditionExpression = Some (Equals ''LastId'' '':previousUserId''),
              UpdateExpression = Some (SET ''LastId'' '':newUserId''),
              ExpressionAttributeValues =
                [('':previousUserId'', N previousUserId), ('':newUserId'', N newUserId)],
              ConsistentRead = False\<rparr>])
      }),
      resultSelector = None,
      resultPath = DISCARD,
      catchers = [],
      next_state = None\<rparr>"

definition buildFindLastId :: "ITable \<Rightarrow> task" where
  "buildFindLastId t =
     \<lparr>state_name = ''FindLastId'',
      service = ''dynamodb'',
      action = ''getItem'',
      iamResources = [tableArn t],
      parameters = (\<lambda>inp.
        Some (Params
          \<lparr>TableName = tableName t,
           Key = Some [(''PK'', S ''USERMETADATA''), (''SK'', S ''USERMETADATA'')],
           Item = None,
           ConditionExpression = None,
           UpdateExpression = None,
           ExpressionAttributeValues = [],
           ConsistentRead = True\<rparr>)),
      resultSelector = Some (\<lambda>out. do {
        previousUserId \<leftarrow> JsonPath [''Item'', ''LastId'', ''N''] out;
        lastId \<leftarrow> Option.bind (as_string previousUserId) States_StringToJson;
        sum \<leftarrow> States_MathAdd lastId (JNumber 1);
        userId \<leftarrow> States_Format ''{}'' [sum];
        Some (JObject [(''previousUserId'', previousUserId), (''userId'', JString userId)])
      }),
      resultPath = At ''context'',
      catchers = [],
      next_state = None\<rparr>"

subsection \<open>Wiring the states\<close>

text \<open>
  \<open>addCatch\<close> adds a catcher to a task and \<open>next\<close> (here \<open>then_next\<close>) sets its
  successor. The state machine starts at the first state of the chain that
  \<open>buildStateMachine\<close> returns.
\<close>

definition addCatch :: "task \<Rightarrow> string \<Rightarrow> string list \<Rightarrow> result_path \<Rightarrow> task" where
  "addCatch tk h es rp =
     tk\<lparr>catchers := catchers tk @ [\<lparr>errors = es, errorPath = rp, handler = h\<rparr>]\<rparr>"

definition then_next :: "task \<Rightarrow> string \<Rightarrow> task" where
  "then_next tk n = tk\<lparr>next_state := Some n\<rparr>"

record machine =
  startAt :: string
  states :: "(string \<times> state) list"

definition buildStateMachine :: "ITable \<Rightarrow> IUserPool \<Rightarrow> machine" where
  "buildStateMachine t u =
     (let pass = (''Pass'', Pass None);
          fail = (''Fail'', Fail);
          rollbackUser = buildRollbackUser t;
          createCognitoUser = buildCreateCognitoUser u;
          correctLastId = buildCorrectLastId t;
          createDbUser = buildCreateDynamoDBUser t;
          findLastId = buildFindLastId t;
          createCognitoUser = addCatch createCognitoUser (state_name rollbackUser)
            [''CognitoIdentityProvider.UsernameExistsException'']
            (At ''error'');
          createDbUser = addCatch createDbUser (state_name correctLastId)
            [''DynamoDB.ConditionalCheckFailedException'',
             ''DynamoDb.TransactionCanceledException'']
            (At ''error'');
          correctLastId = then_next correctLastId (state_name findLastId);
          rollbackUser = then_next rollbackUser (fst fail);
          findLastId = then_next findLastId (state_name createDbUser);
          createDbUser = then_next createDbUser (state_name createCognitoUser);
          createCognitoUser = then_next createCognitoUser (fst pass)
      in \<lparr>startAt = state_name findLastId,
          states =
            [(state_name findLastId, CallAwsService findLastId),
             (state_name createDbUser, CallAwsService createDbUser),
             (state_name createCognitoUser, CallAwsService createCognitoUser),
             pass,
             (state_name correctLastId, CallAwsService correctLastId),
             (state_name rollbackUser, CallAwsService rollbackUser),
             fail]\<rparr>)"

section \<open>Running the machine\<close>

text \<open>
  One step runs the current state on the document and the services. A service call may
  also fail for a reason of its own (throttling, an outage, a conflict with another
  transaction): the step takes that fault as an argument, \<open>Some e\<close> for a call that raises
  \<open>e\<close> and changes nothing, \<open>None\<close> for a call that the service carries out.
  An error is handled by the first catcher of the task that lists it (or lists the
  wildcard \<open>States.ALL\<close>, which stands for every error but the two that cannot be
  caught); an error that no catcher handles ends the execution.
\<close>

datatype outcome = Next string json | Succeeded json | Failed "string option"

definition exec_task :: "task \<Rightarrow> string option \<Rightarrow> json \<Rightarrow> world \<Rightarrow> (string + json) \<times> world" where
  "exec_task tk fault inp w =
     (case parameters tk inp of
        None \<Rightarrow> (Inl ''States.Runtime'', w)
      | Some p \<Rightarrow>
          (case fault of
             Some e \<Rightarrow> (Inl e, w)
           | None \<Rightarrow> call (service tk) (action tk) p w))"

fun place :: "result_path \<Rightarrow> json \<Rightarrow> json \<Rightarrow> json option" where
  "place Whole r inp = Some r"
| "place (At k) r inp = set_field k r inp"
| "place DISCARD r inp = Some inp"

definition apply_result :: "task \<Rightarrow> json \<Rightarrow> json \<Rightarrow> json option" where
  "apply_result tk inp r =
     (case resultSelector tk of
        None \<Rightarrow> place (resultPath tk) r inp
      | Some sel \<Rightarrow> Option.bind (sel r) (\<lambda>r'. place (resultPath tk) r' inp))"

definition catches :: "string \<Rightarrow> catcher \<Rightarrow> bool" where
  "catches e c =
     (e \<in> set (errors c) \<or>
      (''States.ALL'' \<in> set (errors c) \<and>
       e \<noteq> ''States.Runtime'' \<and> e \<noteq> ''States.DataLimitExceeded''))"

text \<open>
  The error that a catcher records: the name of the error (the text of its cause, which
  no state reads, is left out).
\<close>

definition error_json :: "string \<Rightarrow> json" where
  "error_json e = JObject [(''Error'', JString e)]"

definition step :: "machine \<Rightarrow> string option \<Rightarrow> string \<Rightarrow> json \<Rightarrow> world \<Rightarrow> outcome \<times> world" where
  "step m fault s inp w =
     (case map_of (states m) s of
        None \<Rightarrow> (Failed (Some ''States.Runtime''), w)
      | Some Fail \<Rightarrow> (Failed None, w)
      | Some (Pass n) \<Rightarrow>
          (case n of None \<Rightarrow> (Succeeded inp, w) | Some s' \<Rightarrow> (Next s' inp, w))
      | Some (CallAwsService tk) \<Rightarrow>
          (case exec_task tk fault inp w of
             (Inr r, w') \<Rightarrow>
               (case apply_result tk inp r of
                  None \<Rightarrow> (Failed (Some ''States.Runtime''), w')
                | Some out \<Rightarrow>
                    (case next_state tk of
                       None \<Rightarrow> (Succeeded out, w')
                     | Some s' \<Rightarrow> (Next s' out, w')))
           | (Inl e, w') \<Rightarrow>
               (case find (catches e) (catchers tk) of
                  None \<Rightarrow> (Failed (Some e), w')
                | Some c \<Rightarrow>
                    (case place (errorPath c) (error_json e) inp of
                       None \<Rightarrow> (Failed (Some ''States.Runtime''), w')
                     | Some out \<Rightarrow> (Next (handler c) out, w')))))"

text \<open>
  An execution starts at \<open>startAt\<close> with the caller's document. The retry cycle of the
  machine has no bound, so a run takes the number of steps it may make; \<open>faults\<close> gives
  the fault of each step in turn, and none once the list is used up.
\<close>

fun run :: "nat \<Rightarrow> machine \<Rightarrow> string option list \<Rightarrow> outcome \<times> world \<Rightarrow> outcome \<times> world" where
  "run 0 m faults c = c"
| "run (Suc n) m faults (Next s inp, w) =
     run n m (tl faults) (step m (case faults of [] \<Rightarrow> None | f # _ \<Rightarrow> f) s inp w)"
| "run (Suc n) m faults (Succeeded out, w) = (Succeeded out, w)"
| "run (Suc n) m faults (Failed e, w) = (Failed e, w)"

definition start :: "machine \<Rightarrow> json \<Rightarrow> world \<Rightarrow> outcome \<times> world" where
  "start m inp w = (Next (startAt m) inp, w)"


section \<open>Observations used in the statements\<close>

text \<open>
  The sequence counter is the item with both keys \<open>USERMETADATA\<close>, and its value is the
  number attribute \<open>LastId\<close> of that item; the profile of a user id is the item with both
  keys \<open>USERPROFILE#\<close> followed by the id.
\<close>

definition counter_key :: "string \<times> string" where
  "counter_key = (''USERMETADATA'', ''USERMETADATA'')"

definition profile_key :: "string \<Rightarrow> string \<times> string" where
  "profile_key uid = (''USERPROFILE#'' @ uid, ''USERPROFILE#'' @ uid)"

definition lastId :: "world \<Rightarrow> int option" where
  "lastId w =
     (case table w counter_key of
        None \<Rightarrow> None
      | Some i \<Rightarrow> (case map_of i ''LastId'' of Some (N c) \<Rightarrow> Some c | _ \<Rightarrow> None))"

definition context_json :: "int \<Rightarrow> json" where
  "context_json c =
     JObject [(''previousUserId'', JString (string_of_int c)),
              (''userId'', JString (string_of_int (c + 1)))]"

definition profile_item :: "string \<Rightarrow> string \<Rightarrow> string \<Rightarrow> string \<Rightarrow> string \<Rightarrow> item" where
  "profile_item uid firstName lastName emailAddress phoneNumber =
     [(''PK'', S (''USERPROFILE#'' @ uid)),
      (''SK'', S (''USERPROFILE#'' @ uid)),
      (''FirstName'', S firstName),
      (''LastName'', S lastName),
      (''EmailAddress'', S emailAddress),
      (''PhoneNumber'', S phoneNumber)]"

text \<open>
  The two requests of the write transaction and the change that advancing the counter
  makes to the table, named for the statements below.
\<close>

definition profile_put :: "ITable \<Rightarrow> item \<Rightarrow> ddb_params" where
  "profile_put t it =
     \<lparr>TableName = tableName t,
      Key = None,
      Item = Some it,
      ConditionExpression = Some (attribute_not_exists ''PK''),
      UpdateExpression = None,
      ExpressionAttributeValues = [],
      ConsistentRead = False\<rparr>"

definition counter_update :: "ITable \<Rightarrow> int \<Rightarrow> int \<Rightarrow> ddb_params" where
  "counter_update t p n =
     \<lparr>TableName = tableName t,
      Key = Some [(''PK'', S ''USERMETADATA''), (''SK'', S ''USERMETADATA'')],
      Item = None,
      ConditionExpression = Some (Equals ''LastId'' '':previousUserId''),
      UpdateExpression = Some (SET ''LastId'' '':newUserId''),
      ExpressionAttributeValues = [('':previousUserId'', N p), ('':newUserId'', N n)],
      ConsistentRead = False\<rparr>"

definition profile_delete :: "ITable \<Rightarrow> string \<Rightarrow> ddb_params" where
  "profile_delete t uid =
     \<lparr>TableName = tableName t,
      Key = Some [(''PK'', S (''USERPROFILE#'' @ uid)), (''SK'', S (''USERPROFILE#'' @ uid))],
      Item = None,
      ConditionExpression = None,
      UpdateExpression = None,
      ExpressionAttributeValues = [],
      ConsistentRead = False\<rparr>"

definition user_response :: "string \<Rightarrow> string \<Rightarrow> json" where
  "user_response uid email =
     JObject [(''User'', JObject
       [(''Username'', JString uid),
        (''Attributes'', JArray
          [JObject [(''Name'', JString ''email''), (''Value'', JString email)],
           JObject [(''Name'', JString ''email_verified''), (''Value'', JString ''true'')]])])]"

definition advance_counter :: "int \<Rightarrow> dynamo_table \<Rightarrow> dynamo_table" where
  "advance_counter n tb =
     (case tb counter_key of
        None \<Rightarrow> tb
      | Some i \<Rightarrow> tb(counter_key \<mapsto> AList.update ''LastId'' (N n) i))"

definition free_key :: "dynamo_table \<Rightarrow> string \<Rightarrow> bool" where
  "free_key tb uid =
     (case tb (profile_key uid) of None \<Rightarrow> True | Some i \<Rightarrow> map_of i ''PK'' = None)"

text \<open>
  The transitions of a machine: the successor of each state, marked \<open>None\<close>, and the
  handler of each of its catchers, marked with the errors the catcher lists.
\<close>

fun transitions :: "state \<Rightarrow> (string list option \<times> string) list" where
  "transitions (CallAwsService tk) =
     (case next_state tk of None \<Rightarrow> [] | Some n \<Rightarrow> [(None, n)]) @
     map (\<lambda>c. (Some (errors c), handler c)) (catchers tk)"
| "transitions (Pass n) = (case n of None \<Rightarrow> [] | Some s \<Rightarrow> [(None, s)])"
| "transitions Fail = []"

definition edges :: "machine \<Rightarrow> (string \<times> string list option \<times> string) list" where
  "edges m = concat (map (\<lambda>(s, st). map (\<lambda>(l, s'). (s, l, s')) (transitions st)) (states m))"

definition terminal :: "outcome \<times> world \<Rightarrow> bool" where
  "terminal c = (case fst c of Next s inp \<Rightarrow> False | _ \<Rightarrow> True)"

text \<open>
  What a successful execution has committed: its output names a user whose name is the
  numeral of the counter, and the table holds a profile item, and the pool an account,
  under that name. \<open>on_track\<close> is what holds of every configuration that an execution
  reaches from its start.
\<close>

definition committed :: "json \<Rightarrow> world \<Rightarrow> bool" where
  "committed out w =
     (case JsonPath [''User'', ''Username''] out of
        Some (JString uid) \<Rightarrow>
          (case int_of_string uid of
             Some c \<Rightarrow>
               uid = string_of_int c \<and> lastId w = Some c \<and>
               table w (profile_key uid) \<noteq> None \<and> userPool w uid \<noteq> None
           | None \<Rightarrow> False)
      | _ \<Rightarrow> False)"

definition on_track :: "outcome \<times> world \<Rightarrow> bool" where
  "on_track c =
     (case c of
        (Next s doc, w) \<Rightarrow>
          (s = ''CreateDynamoDBUser'' \<longrightarrow>
             (\<exists>c. JsonPath [''context''] doc = Some (context_json c))) \<and>
          (s = ''CreateCognitoUser'' \<longrightarrow>
             (\<exists>c. JsonPath [''context''] doc = Some (context_json c) \<and>
                  lastId w = Some (c + 1) \<and>
                  table w (profile_key (string_of_int (c + 1))) \<noteq> None)) \<and>
          (s = ''Pass'' \<longrightarrow> committed doc w)
      | (Succeeded out, w) \<Rightarrow> committed out w
      | (Failed e, w) \<Rightarrow> True)"

text \<open>
  Until it reaches \<open>Pass\<close>, the document of an execution keeps what the caller supplied
  outside the three fields that the states write.
\<close>

definition keeps :: "json \<Rightarrow> outcome \<times> world \<Rightarrow> bool" where
  "keeps inp c =
     (case c of
        (Next s doc, w) \<Rightarrow>
          s \<noteq> ''Pass'' \<longrightarrow>
          (\<forall>k ks. k \<noteq> ''context'' \<and> k \<noteq> ''error'' \<and> k \<noteq> ''results'' \<longrightarrow>
             JsonPath (k # ks) doc = JsonPath (k # ks) inp)
      | _ \<Rightarrow> True)"


section \<open>A deployment to evaluate on\<close>

text \<open>
  The construct names the table \<open>SampleUsers\<close> and the state machine \<open>UserCreation\<close>.
  The identifiers below stand for the ones that the deployment assigns.
\<close>

definition sampleTable :: ITable where
  "sampleTable = \<lparr>tableName = ''SampleUsers'', tableArn = ''arn:table/SampleUsers''\<rparr>"

definition samplePool :: IUserPool where
  "samplePool = \<lparr>userPoolId = ''SamplePool-id'', userPoolArn = ''arn:userpool/SamplePool''\<rparr>"

definition UserCreation :: machine where
  "UserCreation = buildStateMachine sampleTable samplePool"

definition request :: "(string \<times> json) list" where
  "request =
     [(''firstName'', JString ''Ada''),
      (''lastName'', JString ''Lovelace''),
      (''emailAddress'', JString ''ada@example.org''),
      (''phoneNumber'', JString ''5550100'')]"

definition allocated :: "string \<Rightarrow> string \<Rightarrow> (string \<times> json) list" where
  "allocated previousUserId userId =
     request @ [(''context'', JObject [(''previousUserId'', JString previousUserId),
                                       (''userId'', JString userId)])]"

definition counter_item :: "int \<Rightarrow> item" where
  "counter_item n =
     [(''PK'', S ''USERMETADATA''), (''SK'', S ''USERMETADATA''), (''LastId'', N n)]"

definition store :: "int \<Rightarrow> world" where
  "store n = \<lparr>table = [counter_key \<mapsto> counter_item n], userPool = Map.empty\<rparr>"

definition stale_store :: world where
  "stale_store =
     \<lparr>table = [counter_key \<mapsto> counter_item 41,
               profile_key ''42'' \<mapsto> profile_item ''42'' ''Grace'' ''Hopper'' ''grace@example.org'' ''5550101''],
      userPool = Map.empty\<rparr>"

text \<open>
  The store after a first execution has committed user 42, and the same store when the
  pool already has an account named 42.
\<close>

definition committed_store :: world where
  "committed_store =
     \<lparr>table = [counter_key \<mapsto> counter_item 42,
               profile_key ''42'' \<mapsto>
                 profile_item ''42'' ''Ada'' ''Lovelace'' ''ada@example.org'' ''5550100''],
      userPool = Map.empty\<rparr>"

definition duplicate_store :: world where
  "duplicate_store =
     \<lparr>table = [counter_key \<mapsto> counter_item 42,
               profile_key ''42'' \<mapsto>
                 profile_item ''42'' ''Ada'' ''Lovelace'' ''ada@example.org'' ''5550100''],
      userPool = [''42'' \<mapsto> [(''email'', ''someone@example.org'')]]\<rparr>"

text \<open>
  The store with the counter at 41 when the pool already has an account named 42.
\<close>

definition taken_store :: world where
  "taken_store =
     \<lparr>table = [counter_key \<mapsto> counter_item 41],
      userPool = [''42'' \<mapsto> [(''email'', ''someone@example.org'')]]\<rparr>"


section \<open>Decimal numerals are read back as written\<close>

lemma less_10_cases:
  "d < 10 \<Longrightarrow>
   d = 0 \<or> d = 1 \<or> d = 2 \<or> d = 3 \<or> d = 4 \<or> d = 5 \<or> d = 6 \<or> d = 7 \<or> d = 8 \<or> d = (9::nat)"
  by arith

lemma digit_val_char: "d < 10 \<Longrightarrow> digit_val (digit_char d) = d"
  by (drule less_10_cases) (auto simp: digit_val_def digit_char_def)

lemma is_digit_char: "d < 10 \<Longrightarrow> is_digit (digit_char d)"
  by (drule less_10_cases) (auto simp: is_digit_def digit_char_def)

lemma string_of_nat_digits: "list_all is_digit (string_of_nat n) \<and> string_of_nat n \<noteq> []"
proof (induction n rule: string_of_nat.induct)
  case (1 n)
  show ?case
  proof (cases "n < 10")
    case True
    then show ?thesis by (simp add: string_of_nat.simps [of n] is_digit_char)
  next
    case False
    with 1 show ?thesis by (simp add: string_of_nat.simps [of n] is_digit_char)
  qed
qed

lemma foldl_string_of_nat:
  "foldl (\<lambda>a c. 10 * a + digit_val c) 0 (string_of_nat n) = n"
proof (induction n rule: string_of_nat.induct)
  case (1 n)
  show ?case
  proof (cases "n < 10")
    case True
    then show ?thesis by (simp add: string_of_nat.simps [of n] digit_val_char)
  next
    case False
    with 1 show ?thesis by (simp add: string_of_nat.simps [of n] digit_val_char)
  qed
qed

lemma nat_of_string_of_nat: "nat_of_string (string_of_nat n) = Some n"
  using string_of_nat_digits [of n] by (simp add: nat_of_string_def foldl_string_of_nat)

lemma string_of_nat_no_sign: "string_of_nat n = c # r \<Longrightarrow> c \<noteq> CHR ''-''"
proof -
  have "\<not> is_digit CHR ''-''" by (simp add: is_digit_def)
  moreover assume "string_of_nat n = c # r"
  ultimately show ?thesis using string_of_nat_digits [of n] by auto
qed

lemma int_of_string_of_int [simp]: "int_of_string (string_of_int i) = Some i"
proof (cases "i < 0")
  case True
  then show ?thesis
    by (simp add: int_of_string_def string_of_int_def nat_of_string_of_nat)
next
  case False
  obtain c r where cr: "string_of_nat (nat i) = c # r"
    using string_of_nat_digits [of "nat i"] by (cases "string_of_nat (nat i)") auto
  have "c \<noteq> CHR ''-''" using string_of_nat_no_sign [OF cr] .
  with False cr show ?thesis
    using nat_of_string_of_nat [of "nat i"]
    by (simp add: int_of_string_def string_of_int_def)
qed


section \<open>The wiring of the machine\<close>

lemma then_next_fields [simp]:
  "state_name (then_next tk n) = state_name tk"
  "service (then_next tk n) = service tk"
  "action (then_next tk n) = action tk"
  "parameters (then_next tk n) = parameters tk"
  "resultSelector (then_next tk n) = resultSelector tk"
  "resultPath (then_next tk n) = resultPath tk"
  "catchers (then_next tk n) = catchers tk"
  "next_state (then_next tk n) = Some n"
  by (simp_all add: then_next_def)

lemma addCatch_fields [simp]:
  "state_name (addCatch tk h es rp) = state_name tk"
  "service (addCatch tk h es rp) = service tk"
  "action (addCatch tk h es rp) = action tk"
  "parameters (addCatch tk h es rp) = parameters tk"
  "resultSelector (addCatch tk h es rp) = resultSelector tk"
  "resultPath (addCatch tk h es rp) = resultPath tk"
  "catchers (addCatch tk h es rp) =
     catchers tk @ [\<lparr>errors = es, errorPath = rp, handler = h\<rparr>]"
  "next_state (addCatch tk h es rp) = next_state tk"
  by (simp_all add: addCatch_def)

lemma state_names [simp]:
  "state_name (buildFindLastId t) = ''FindLastId''"
  "state_name (buildCreateDynamoDBUser t) = ''CreateDynamoDBUser''"
  "state_name (buildCorrectLastId t) = ''CorrectLastId''"
  "state_name (buildRollbackUser t) = ''RollbackUser''"
  "state_name (buildCreateCognitoUser u) = ''CreateCognitoUser''"
  by (simp_all add: buildFindLastId_def buildCreateDynamoDBUser_def buildCorrectLastId_def
      buildRollbackUser_def buildCreateCognitoUser_def)

lemma FindLastId_fields [simp]:
  "service (buildFindLastId t) = ''dynamodb''"
  "action (buildFindLastId t) = ''getItem''"
  "resultPath (buildFindLastId t) = At ''context''"
  "catchers (buildFindLastId t) = []"
  by (simp_all add: buildFindLastId_def)

lemma CreateDynamoDBUser_fields [simp]:
  "service (buildCreateDynamoDBUser t) = ''dynamodb''"
  "action (buildCreateDynamoDBUser t) = ''transactWriteItems''"
  "resultSelector (buildCreateDynamoDBUser t) = None"
  "resultPath (buildCreateDynamoDBUser t) = DISCARD"
  "catchers (buildCreateDynamoDBUser t) = []"
  by (simp_all add: buildCreateDynamoDBUser_def)

lemma CorrectLastId_fields [simp]:
  "service (buildCorrectLastId t) = ''dynamodb''"
  "action (buildCorrectLastId t) = ''updateItem''"
  "resultSelector (buildCorrectLastId t) = None"
  "resultPath (buildCorrectLastId t) = At ''results''"
  "catchers (buildCorrectLastId t) = []"
  by (simp_all add: buildCorrectLastId_def)

lemma RollbackUser_fields [simp]:
  "service (buildRollbackUser t) = ''dynamodb''"
  "action (buildRollbackUser t) = ''deleteItem''"
  "resultSelector (buildRollbackUser t) = None"
  "resultPath (buildRollbackUser t) = At ''results''"
  "catchers (buildRollbackUser t) = []"
  by (simp_all add: buildRollbackUser_def)

lemma CreateCognitoUser_fields [simp]:
  "service (buildCreateCognitoUser u) = ''cognitoidentityprovider''"
  "action (buildCreateCognitoUser u) = ''adminCreateUser''"
  "resultSelector (buildCreateCognitoUser u) = None"
  "resultPath (buildCreateCognitoUser u) = Whole"
  "catchers (buildCreateCognitoUser u) = []"
  by (simp_all add: buildCreateCognitoUser_def)

lemma machine_start: "startAt (buildStateMachine t u) = ''FindLastId''"
  by (simp add: buildStateMachine_def Let_def)

lemma machine_states:
  "states (buildStateMachine t u) =
     [(''FindLastId'', CallAwsService (then_next (buildFindLastId t) ''CreateDynamoDBUser'')),
      (''CreateDynamoDBUser'', CallAwsService (then_next (addCatch (buildCreateDynamoDBUser t)
          ''CorrectLastId''
          [''DynamoDB.ConditionalCheckFailedException'', ''DynamoDb.TransactionCanceledException'']
          (At ''error'')) ''CreateCognitoUser'')),
      (''CreateCognitoUser'', CallAwsService (then_next (addCatch (buildCreateCognitoUser u)
          ''RollbackUser'' [''CognitoIdentityProvider.UsernameExistsException'']
          (At ''error'')) ''Pass'')),
      (''Pass'', Pass None),
      (''CorrectLastId'', CallAwsService (then_next (buildCorrectLastId t) ''FindLastId'')),
      (''RollbackUser'', CallAwsService (then_next (buildRollbackUser t) ''Fail'')),
      (''Fail'', Fail)]"
  by (simp add: buildStateMachine_def Let_def)

section \<open>One step of each state\<close>

lemma exec_task_wired [simp]:
  "exec_task (then_next tk n) = exec_task tk"
  "exec_task (addCatch tk h es rp) = exec_task tk"
  by (simp_all add: exec_task_def fun_eq_iff split: option.splits)

lemma apply_result_wired [simp]:
  "apply_result (then_next tk n) = apply_result tk"
  "apply_result (addCatch tk h es rp) = apply_result tk"
  by (simp_all add: apply_result_def fun_eq_iff split: option.splits)

lemma step_FindLastId:
  "step (buildStateMachine t u) f ''FindLastId'' inp w =
     (case exec_task (buildFindLastId t) f inp w of
        (Inr r, w') \<Rightarrow>
          (case apply_result (buildFindLastId t) inp r of
             None \<Rightarrow> (Failed (Some ''States.Runtime''), w')
           | Some out \<Rightarrow> (Next ''CreateDynamoDBUser'' out, w'))
      | (Inl e, w') \<Rightarrow> (Failed (Some e), w'))"
  by (simp add: step_def machine_states split: prod.splits sum.splits option.splits)

lemma step_CreateDynamoDBUser:
  "step (buildStateMachine t u) f ''CreateDynamoDBUser'' inp w =
     (case exec_task (buildCreateDynamoDBUser t) f inp w of
        (Inr r, w') \<Rightarrow> (Next ''CreateCognitoUser'' inp, w')
      | (Inl e, w') \<Rightarrow>
          if e = ''DynamoDB.ConditionalCheckFailedException'' \<or>
             e = ''DynamoDb.TransactionCanceledException''
          then (case set_field ''error'' (error_json e) inp of
                  None \<Rightarrow> (Failed (Some ''States.Runtime''), w')
                | Some out \<Rightarrow> (Next ''CorrectLastId'' out, w'))
          else (Failed (Some e), w'))"
  by (simp add: step_def machine_states catches_def apply_result_def
      split: prod.splits sum.splits option.splits)

lemma step_CreateCognitoUser:
  "step (buildStateMachine t u) f ''CreateCognitoUser'' inp w =
     (case exec_task (buildCreateCognitoUser u) f inp w of
        (Inr r, w') \<Rightarrow> (Next ''Pass'' r, w')
      | (Inl e, w') \<Rightarrow>
          if e = ''CognitoIdentityProvider.UsernameExistsException''
          then (case set_field ''error'' (error_json e) inp of
                  None \<Rightarrow> (Failed (Some ''States.Runtime''), w')
                | Some out \<Rightarrow> (Next ''RollbackUser'' out, w'))
          else (Failed (Some e), w'))"
  by (simp add: step_def machine_states catches_def apply_result_def
      split: prod.splits sum.splits option.splits)

lemma step_CorrectLastId:
  "step (buildStateMachine t u) f ''CorrectLastId'' inp w =
     (case exec_task (buildCorrectLastId t) f inp w of
        (Inr r, w') \<Rightarrow>
          (case set_field ''results'' r inp of
             None \<Rightarrow> (Failed (Some ''States.Runtime''), w')
           | Some out \<Rightarrow> (Next ''FindLastId'' out, w'))
      | (Inl e, w') \<Rightarrow> (Failed (Some e), w'))"
  by (simp add: step_def machine_states apply_result_def split: prod.splits sum.splits option.splits)

lemma step_RollbackUser:
  "step (buildStateMachine t u) f ''RollbackUser'' inp w =
     (case exec_task (buildRollbackUser t) f inp w of
        (Inr r, w') \<Rightarrow>
          (case set_field ''results'' r inp of
             None \<Rightarrow> (Failed (Some ''States.Runtime''), w')
           | Some out \<Rightarrow> (Next ''Fail'' out, w'))
      | (Inl e, w') \<Rightarrow> (Failed (Some e), w'))"
  by (simp add: step_def machine_states apply_result_def split: prod.splits sum.splits option.splits)

lemma step_Pass: "step (buildStateMachine t u) f ''Pass'' inp w = (Succeeded inp, w)"
  by (simp add: step_def machine_states)

lemma step_Fail: "step (buildStateMachine t u) f ''Fail'' inp w = (Failed None, w)"
  by (simp add: step_def machine_states)

lemma step_other:
  "\<not> (s = ''FindLastId'' \<or> s = ''CreateDynamoDBUser'' \<or> s = ''CreateCognitoUser'' \<or>
      s = ''Pass'' \<or> s = ''CorrectLastId'' \<or> s = ''RollbackUser'' \<or> s = ''Fail'') \<Longrightarrow>
   step (buildStateMachine t u) f s inp w = (Failed (Some ''States.Runtime''), w)"
  by (simp add: step_def machine_states)

lemma seven_cases:
  "A \<or> B \<or> C \<or> D \<or> E \<or> F \<or> G \<or> \<not> (A \<or> B \<or> C \<or> D \<or> E \<or> F \<or> G)"
  by blast

lemma state_cases:
  obtains "s = ''FindLastId''" | "s = ''CreateDynamoDBUser''" | "s = ''CreateCognitoUser''"
    | "s = ''Pass''" | "s = ''CorrectLastId''" | "s = ''RollbackUser''" | "s = ''Fail''"
    | "\<not> (s = ''FindLastId'' \<or> s = ''CreateDynamoDBUser'' \<or> s = ''CreateCognitoUser'' \<or>
      s = ''Pass'' \<or> s = ''CorrectLastId'' \<or> s = ''RollbackUser'' \<or> s = ''Fail'')"
  using seven_cases [of "s = ''FindLastId''" "s = ''CreateDynamoDBUser''"
      "s = ''CreateCognitoUser''" "s = ''Pass''" "s = ''CorrectLastId''"
      "s = ''RollbackUser''" "s = ''Fail''"]
  by (elim disjE) (erule that)+

section \<open>The requests of the tasks\<close>

lemma JsonPath_object: "JsonPath (k # ks) inp = Some v \<Longrightarrow> \<exists>kvs. inp = JObject kvs"
  by (cases inp) simp_all

lemma string_at_object: "string_at (k # ks) inp = Some v \<Longrightarrow> \<exists>kvs. inp = JObject kvs"
  by (cases inp) (simp_all add: string_at_def)

lemma string_at_JsonPath: "string_at p inp = Some s \<longleftrightarrow> JsonPath p inp = Some (JString s)"
proof (cases "JsonPath p inp")
  case None
  then show ?thesis by (simp add: string_at_def)
next
  case (Some j)
  then show ?thesis by (cases j) (simp_all add: string_at_def)
qed

lemma number_at_string:
  "number_at p inp = Some n \<longleftrightarrow> (\<exists>s. string_at p inp = Some s \<and> int_of_string s = Some n)"
  by (cases "string_at p inp") (simp_all add: number_at_def)

lemma States_Format_profile:
  "States_Format ''USERPROFILE#{}'' [j] = map_option ((@) ''USERPROFILE#'') (arg_text j)"
  by (cases "arg_text j") (simp_all add: States_Format_def)

lemma States_Format_hole: "States_Format ''{}'' [j] = arg_text j"
  by (cases "arg_text j") (simp_all add: States_Format_def)

lemma writer_parameters:
  "parameters (buildCreateDynamoDBUser t) inp =
     (case string_at [''context'', ''userId''] inp of
        None \<Rightarrow> None
      | Some uid \<Rightarrow>
     (case string_at [''firstName''] inp of
        None \<Rightarrow> None
      | Some fn \<Rightarrow>
     (case string_at [''lastName''] inp of
        None \<Rightarrow> None
      | Some ln \<Rightarrow>
     (case string_at [''emailAddress''] inp of
        None \<Rightarrow> None
      | Some em \<Rightarrow>
     (case string_at [''phoneNumber''] inp of
        None \<Rightarrow> None
      | Some ph \<Rightarrow>
     (case number_at [''context'', ''previousUserId''] inp of
        None \<Rightarrow> None
      | Some p \<Rightarrow>
     (case int_of_string uid of
        None \<Rightarrow> None
      | Some n \<Rightarrow>
          Some (TransactItems
            [Put (profile_put t (profile_item uid fn ln em ph)),
             Update (counter_update t p n)]))))))))"
proof (cases "JsonPath [''context'', ''userId''] inp")
  case None
  then show ?thesis
    by (simp add: buildCreateDynamoDBUser_def string_at_def del: JsonPath.simps)
next
  case (Some j)
  show ?thesis
  proof (cases "as_string j")
    case None
    with Some have 1: "string_at [''context'', ''userId''] inp = None"
      by (simp add: string_at_def del: JsonPath.simps)
    then have 2: "number_at [''context'', ''userId''] inp = None"
      by (simp add: number_at_def)
    show ?thesis unfolding 1
      by (simp add: buildCreateDynamoDBUser_def 2 del: JsonPath.simps split: option.splits)  
  next
    case (Some uid)
    with \<open>JsonPath [''context'', ''userId''] inp = Some j\<close>
    have j: "j = JString uid" by (cases j) simp_all
    have 1: "string_at [''context'', ''userId''] inp = Some uid"
      using \<open>JsonPath [''context'', ''userId''] inp = Some j\<close> j 
      by (simp add: string_at_def del: JsonPath.simps)
    have 2: "number_at [''context'', ''userId''] inp = int_of_string uid"
      using 1 by (simp add: number_at_def)
    show ?thesis unfolding 1 using \<open>JsonPath [''context'', ''userId''] inp = Some j\<close> j
      by (simp add: buildCreateDynamoDBUser_def 2 States_Format_profile profile_put_def
          counter_update_def profile_item_def del: JsonPath.simps split: option.splits) 
  qed
qed

lemma corrector_parameters:
  "parameters (buildCorrectLastId t) inp =
     (case number_at [''context'', ''previousUserId''] inp of
        None \<Rightarrow> None
      | Some p \<Rightarrow>
     (case number_at [''context'', ''userId''] inp of
        None \<Rightarrow> None
      | Some n \<Rightarrow> Some (Params (counter_update t p n))))"
  by (simp add: buildCorrectLastId_def counter_update_def split: option.splits)

lemma rollback_parameters:
  "parameters (buildRollbackUser t) inp =
     (case JsonPath [''context'', ''userId''] inp of
        None \<Rightarrow> None
      | Some j \<Rightarrow>
     (case arg_text j of
        None \<Rightarrow> None
      | Some uid \<Rightarrow> Some (Params (profile_delete t uid))))"
  by (simp add: buildRollbackUser_def profile_delete_def States_Format_profile
      del: JsonPath.simps split: option.splits)

lemma registrar_parameters:
  "parameters (buildCreateCognitoUser u) inp =
     (case string_at [''context'', ''userId''] inp of
        None \<Rightarrow> None
      | Some uid \<Rightarrow>
     (case string_at [''emailAddress''] inp of
        None \<Rightarrow> None
      | Some email \<Rightarrow>
          Some (UserParams
            \<lparr>UserPoolId = userPoolId u,
             Username = uid,
             UserAttributes = [(''email'', email), (''email_verified'', ''true'')]\<rparr>)))"
  by (simp add: buildCreateCognitoUser_def split: option.splits)

lemma finder_parameters:
  "parameters (buildFindLastId t) inp =
     Some (Params
       \<lparr>TableName = tableName t,
        Key = Some [(''PK'', S ''USERMETADATA''), (''SK'', S ''USERMETADATA'')],
        Item = None,
        ConditionExpression = None,
        UpdateExpression = None,
        ExpressionAttributeValues = [],
        ConsistentRead = True\<rparr>)"
  by (simp add: buildFindLastId_def)

section \<open>The effect of the requests on the table\<close>

lemma lastId_Some:
  "lastId w = Some c \<longleftrightarrow>
   (\<exists>i. table w counter_key = Some i \<and> map_of i ''LastId'' = Some (N c))"
  by (auto simp: lastId_def split: option.splits attr.splits)

lemma profile_key_not_counter [simp]:
  "profile_key uid \<noteq> counter_key" "counter_key \<noteq> profile_key uid"
  by (simp_all add: profile_key_def counter_key_def)

lemma profile_key_inj [simp]: "profile_key a = profile_key b \<longleftrightarrow> a = b"
  by (simp add: profile_key_def)

lemma key_of_simps [simp]:
  "key_of (profile_item uid fn ln em ph) = Some (profile_key uid)"
  "key_of [(''PK'', S ''USERMETADATA''), (''SK'', S ''USERMETADATA'')] = Some counter_key"
  by (simp_all add: profile_item_def key_of_def profile_key_def counter_key_def)

lemma key_of_pair: "key_of [(''PK'', S a), (''SK'', S b)] = Some (a, b)"
  by (simp add: key_of_def)

lemma profile_put_fields [simp]:
  "Key (profile_put t it) = None"
  "Item (profile_put t it) = Some it"
  "ConditionExpression (profile_put t it) = Some (attribute_not_exists ''PK'')"
  "UpdateExpression (profile_put t it) = None"
  "ExpressionAttributeValues (profile_put t it) = []"
  by (simp_all add: profile_put_def)

lemma counter_update_fields [simp]:
  "Key (counter_update t p n) =
     Some [(''PK'', S ''USERMETADATA''), (''SK'', S ''USERMETADATA'')]"
  "Item (counter_update t p n) = None"
  "ConditionExpression (counter_update t p n) = Some (Equals ''LastId'' '':previousUserId'')"
  "UpdateExpression (counter_update t p n) = Some (SET ''LastId'' '':newUserId'')"
  "ExpressionAttributeValues (counter_update t p n) =
     [('':previousUserId'', N p), ('':newUserId'', N n)]"
  by (simp_all add: counter_update_def)

lemma profile_delete_fields [simp]:
  "Key (profile_delete t uid) =
     Some [(''PK'', S (''USERPROFILE#'' @ uid)), (''SK'', S (''USERPROFILE#'' @ uid))]"
  "ConditionExpression (profile_delete t uid) = None"
  "ExpressionAttributeValues (profile_delete t uid) = []"
  by (simp_all add: profile_delete_def)

lemma accepted_put:
  "accepted tb (Put (profile_put t (profile_item uid fn ln em ph))) = free_key tb uid"
  by (simp add: free_key_def)

lemma accepted_update:
  "accepted tb (Update (counter_update t p n)) =
     (\<exists>i. tb counter_key = Some i \<and> map_of i ''LastId'' = Some (N p))"
  by (auto split: option.splits)

lemma write_put:
  "apply_write (Put (profile_put t (profile_item uid fn ln em ph))) tb =
     tb(profile_key uid \<mapsto> profile_item uid fn ln em ph)"
  by simp

lemma write_update:
  "tb counter_key \<noteq> None \<Longrightarrow>
   apply_write (Update (counter_update t p n)) tb = advance_counter n tb"
  by (auto simp: advance_counter_def)

lemma transact_writer:
  "transactWriteItems
     [Put (profile_put t (profile_item uid fn ln em ph)), Update (counter_update t p n)] tb =
     (if free_key tb uid \<and> (\<exists>i. tb counter_key = Some i \<and> map_of i ''LastId'' = Some (N p))
      then (Inr (JObject []),
            advance_counter n (tb(profile_key uid \<mapsto> profile_item uid fn ln em ph)))
      else (Inl ''DynamoDb.TransactionCanceledException'', tb))"
proof -
  let ?put = "Put (profile_put t (profile_item uid fn ln em ph))"
  let ?upd = "Update (counter_update t p n)"
  have t: "map target [?put, ?upd] = [Some (profile_key uid), Some counter_key]"
    by simp
  have a: "list_all (accepted tb) [?put, ?upd] =
      (free_key tb uid \<and> (\<exists>i. tb counter_key = Some i \<and> map_of i ''LastId'' = Some (N p)))"
    using accepted_put [of tb t uid fn ln em ph] accepted_update [of tb t p n]
    by (simp del: accepted.simps)
  have w: "tb counter_key \<noteq> None \<Longrightarrow> fold apply_write [?put, ?upd] tb =
      advance_counter n (tb(profile_key uid \<mapsto> profile_item uid fn ln em ph))"
    using write_update [of "tb(profile_key uid \<mapsto> profile_item uid fn ln em ph)" t p n]
    by (simp del: apply_write.simps add: write_put)
  show ?thesis
    unfolding transactWriteItems_def t a using w by auto
qed

lemma update_corrector:
  "updateItem (counter_update t p n) tb =
     (if \<exists>i. tb counter_key = Some i \<and> map_of i ''LastId'' = Some (N p)
      then (Inr (JObject []), advance_counter n tb)
      else (Inl ''DynamoDb.ConditionalCheckFailedException'', tb))"
  unfolding updateItem_def accepted_update
  using write_update [of tb t p n] by (auto simp del: apply_write.simps)

lemma delete_rollback:
  "deleteItem (profile_delete t uid) tb = (Inr (JObject []), tb(profile_key uid := None))"
  by (simp add: deleteItem_def key_of_pair profile_key_def)

section \<open>The calls of the tasks\<close>

lemma exec_finder:
  "exec_task (buildFindLastId t) f inp w =
     (case f of
        Some e \<Rightarrow> (Inl e, w)
      | None \<Rightarrow>
          (Inr (case table w counter_key of
                  None \<Rightarrow> JObject []
                | Some i \<Rightarrow> JObject [(''Item'', item_json i)]), w))"
  by (simp add: exec_task_def finder_parameters call_def on_table_def getItem_def
      split: option.splits)

lemma item_json_LastId:
  "JsonPath [''Item'', ''LastId'', ''N''] (JObject [(''Item'', item_json i)]) =
     (case map_of i ''LastId'' of
        Some (N c) \<Rightarrow> Some (JString (string_of_int c))
      | _ \<Rightarrow> None)"
  by (simp add: item_json_def map_of_map comp_def split: option.splits attr.splits)

lemma select_finder:
  "apply_result (buildFindLastId t) inp
     (case table w counter_key of
        None \<Rightarrow> JObject []
      | Some i \<Rightarrow> JObject [(''Item'', item_json i)]) =
     (case lastId w of
        None \<Rightarrow> None
      | Some c \<Rightarrow> set_field ''context'' (context_json c) inp)"
proof (cases "table w counter_key")
  case None
  then show ?thesis
    by (simp add: apply_result_def lastId_def buildFindLastId_def)
next
  case (Some i)
  have sel: "resultSelector (buildFindLastId t) = Some (\<lambda>out. do {
        previousUserId \<leftarrow> JsonPath [''Item'', ''LastId'', ''N''] out;
        lastId \<leftarrow> Option.bind (as_string previousUserId) States_StringToJson;
        sum \<leftarrow> States_MathAdd lastId (JNumber 1);
        userId \<leftarrow> States_Format ''{}'' [sum];
        Some (JObject [(''previousUserId'', previousUserId), (''userId'', JString userId)])
      })"
    by (simp add: buildFindLastId_def)
  show ?thesis
    unfolding apply_result_def sel Some lastId_def
    by (simp add: item_json_LastId States_StringToJson_def States_Format_hole context_json_def
        del: JsonPath.simps split: option.splits attr.splits)
qed

lemma finder_step:
  "step (buildStateMachine t u) f ''FindLastId'' inp w =
     (case f of
        Some e \<Rightarrow> (Failed (Some e), w)
      | None \<Rightarrow>
     (case lastId w of
        None \<Rightarrow> (Failed (Some ''States.Runtime''), w)
      | Some c \<Rightarrow>
     (case set_field ''context'' (context_json c) inp of
        None \<Rightarrow> (Failed (Some ''States.Runtime''), w)
      | Some out \<Rightarrow> (Next ''CreateDynamoDBUser'' out, w))))"
  by (simp add: step_FindLastId exec_finder select_finder split: option.splits)


lemma corrector_parameters_object:
  "parameters (buildCorrectLastId t) inp = Some x \<Longrightarrow> \<exists>kvs. inp = JObject kvs"
  by (cases inp) (simp_all add: corrector_parameters number_at_def string_at_def)

lemma rollback_parameters_object:
  "parameters (buildRollbackUser t) inp = Some x \<Longrightarrow> \<exists>kvs. inp = JObject kvs"
  by (cases inp) (simp_all add: rollback_parameters)

lemma registrar_parameters_object:
  "parameters (buildCreateCognitoUser u) inp = Some x \<Longrightarrow> \<exists>kvs. inp = JObject kvs"
  by (cases inp) (simp_all add: registrar_parameters string_at_def)

lemma exec_no_parameters:
  "parameters tk inp = None \<Longrightarrow> exec_task tk f inp w = (Inl ''States.Runtime'', w)"
  by (simp add: exec_task_def)

lemma exec_fault:
  "parameters tk inp = Some x \<Longrightarrow> exec_task tk (Some e) inp w = (Inl e, w)"
  by (simp add: exec_task_def)

lemma exec_writer:
  assumes "parameters (buildCreateDynamoDBUser t) inp =
    Some (TransactItems
      [Put (profile_put t (profile_item uid fn ln em ph)), Update (counter_update t p n)])"
  shows "exec_task (buildCreateDynamoDBUser t) None inp w =
     (if free_key (table w) uid \<and> lastId w = Some p
      then (Inr (JObject []),
            w\<lparr>table := advance_counter n
                ((table w)(profile_key uid \<mapsto> profile_item uid fn ln em ph))\<rparr>)
      else (Inl ''DynamoDb.TransactionCanceledException'', w))"
  using assms
  by (simp add: exec_task_def call_def on_table_def transact_writer lastId_Some
      del: fun_upd_apply)

lemma exec_corrector:
  assumes "parameters (buildCorrectLastId t) inp = Some (Params (counter_update t p n))"
  shows "exec_task (buildCorrectLastId t) None inp w =
     (if lastId w = Some p
      then (Inr (JObject []), w\<lparr>table := advance_counter n (table w)\<rparr>)
      else (Inl ''DynamoDb.ConditionalCheckFailedException'', w))"
  using assms
  by (simp add: exec_task_def call_def on_table_def update_corrector lastId_Some)

lemma exec_rollback:
  assumes "parameters (buildRollbackUser t) inp = Some (Params (profile_delete t uid))"
  shows "exec_task (buildRollbackUser t) None inp w =
     (Inr (JObject []), w\<lparr>table := (table w)(profile_key uid := None)\<rparr>)"
  using assms
  by (simp add: exec_task_def call_def on_table_def delete_rollback del: fun_upd_apply)

lemma exec_registrar:
  assumes "parameters (buildCreateCognitoUser u) inp =
    Some (UserParams \<lparr>UserPoolId = userPoolId u, Username = uid,
      UserAttributes = [(''email'', email), (''email_verified'', ''true'')]\<rparr>)"
  shows "exec_task (buildCreateCognitoUser u) None inp w =
     (if userPool w uid \<noteq> None
      then (Inl ''CognitoIdentityProvider.UsernameExistsException'', w)
      else (Inr (user_response uid email),
            w\<lparr>userPool := (userPool w)(uid \<mapsto>
                [(''email'', email), (''email_verified'', ''true'')])\<rparr>))"
  using assms
  by (simp add: exec_task_def call_def on_pool_def adminCreateUser_def user_response_def
      del: fun_upd_apply)

section \<open>What a step that goes on establishes\<close>

lemma call_failure_unchanged:
  assumes "call svc act p w = (Inl e, w')"
  shows "w' = w"
  using assms
  by (auto simp: call_def on_table_def on_pool_def getItem_def transactWriteItems_def
      updateItem_def deleteItem_def adminCreateUser_def
      split: if_splits payload.splits option.splits prod.splits)

lemma exec_failure_unchanged:
  assumes "exec_task tk f inp w = (Inl e, w')"
  shows "w' = w"
  using assms call_failure_unchanged [of "service tk" "action tk" _ w e w']
  by (auto simp: exec_task_def split: option.splits)

lemma exec_failure_parameters:
  assumes "exec_task tk f inp w = (Inl e, w')" and "e \<noteq> ''States.Runtime''"
  shows "parameters tk inp \<noteq> None"
  using assms by (cases "parameters tk inp") (auto simp: exec_task_def)

lemma set_field_other:
  assumes "set_field k v inp = Some out" and "k' \<noteq> k"
  shows "JsonPath (k' # ks) out = JsonPath (k' # ks) inp"
  using assms by (cases inp) (auto simp: update_conv')

lemma set_field_same:
  assumes "set_field k v inp = Some out"
  shows "JsonPath [k] out = Some v"
  using assms by (cases inp) (auto simp: update_conv')

lemma set_field_string_at:
  assumes "set_field k v inp = Some out" and "k' \<noteq> k"
  shows "string_at (k' # ks) out = string_at (k' # ks) inp"
  using set_field_other [OF assms] by (simp add: string_at_def del: JsonPath.simps)

lemma set_field_number_at:
  assumes "set_field k v inp = Some out" and "k' \<noteq> k"
  shows "number_at (k' # ks) out = number_at (k' # ks) inp"
  using set_field_string_at [OF assms] by (simp add: number_at_def)

lemma lastId_advance:
  assumes "table w counter_key \<noteq> None"
  shows "lastId (w\<lparr>table := advance_counter n (table w)\<rparr>) = Some n"
  using assms by (auto simp: lastId_def advance_counter_def update_conv')

lemma advance_other:
  "k \<noteq> counter_key \<Longrightarrow> advance_counter n tb k = tb k"
  by (simp add: advance_counter_def split: option.splits)

lemma exec_success:
  assumes "exec_task tk f inp w = (Inr r, w')"
  shows "f = None \<and> parameters tk inp \<noteq> None"
  using assms by (cases "parameters tk inp"; cases f) (auto simp: exec_task_def)

lemma writer_parameters_Some:
  assumes "parameters (buildCreateDynamoDBUser t) inp = Some x"
  shows "\<exists>uid fn ln em ph p n.
    string_at [''context'', ''userId''] inp = Some uid \<and>
    int_of_string uid = Some n \<and>
    number_at [''context'', ''previousUserId''] inp = Some p \<and>
    string_at [''firstName''] inp = Some fn \<and>
    string_at [''lastName''] inp = Some ln \<and>
    string_at [''emailAddress''] inp = Some em \<and>
    string_at [''phoneNumber''] inp = Some ph \<and>
    x = TransactItems
      [Put (profile_put t (profile_item uid fn ln em ph)), Update (counter_update t p n)]"
  using assms by (auto simp: writer_parameters split: option.splits)

lemma writer_success:
  assumes "step (buildStateMachine t u) f ''CreateDynamoDBUser'' inp w =
    (Next ''CreateCognitoUser'' out, w')"
  shows "f = None \<and> out = inp \<and>
    (\<exists>uid fn ln em ph p n.
      string_at [''context'', ''userId''] inp = Some uid \<and>
      int_of_string uid = Some n \<and>
      number_at [''context'', ''previousUserId''] inp = Some p \<and>
      string_at [''firstName''] inp = Some fn \<and>
      string_at [''lastName''] inp = Some ln \<and>
      string_at [''emailAddress''] inp = Some em \<and>
      string_at [''phoneNumber''] inp = Some ph \<and>
      free_key (table w) uid \<and> lastId w = Some p \<and>
      w' = w\<lparr>table := advance_counter n
              ((table w)(profile_key uid \<mapsto> profile_item uid fn ln em ph))\<rparr>)"
proof -
  obtain r where ex: "exec_task (buildCreateDynamoDBUser t) f inp w = (Inr r, w')"
    and out: "out = inp"
    using assms
    by (auto simp: step_CreateDynamoDBUser split: prod.splits sum.splits option.splits if_splits)
  from exec_success [OF ex] obtain x where f: "f = None"
    and x: "parameters (buildCreateDynamoDBUser t) inp = Some x" by auto
  from writer_parameters_Some [OF x] obtain uid fn ln em ph p n where
    facts: "string_at [''context'', ''userId''] inp = Some uid"
      "int_of_string uid = Some n"
      "number_at [''context'', ''previousUserId''] inp = Some p"
      "string_at [''firstName''] inp = Some fn"
      "string_at [''lastName''] inp = Some ln"
      "string_at [''emailAddress''] inp = Some em"
      "string_at [''phoneNumber''] inp = Some ph"
    and xeq: "x = TransactItems
      [Put (profile_put t (profile_item uid fn ln em ph)), Update (counter_update t p n)]"
    by blast
  from ex f exec_writer [OF x [unfolded xeq], of w]
  have "free_key (table w) uid \<and> lastId w = Some p \<and>
      w' = w\<lparr>table := advance_counter n
              ((table w)(profile_key uid \<mapsto> profile_item uid fn ln em ph))\<rparr>"
    by (auto split: if_splits)
  with f out facts show ?thesis by blast
qed

lemma writer_caught:
  assumes "step (buildStateMachine t u) f ''CreateDynamoDBUser'' inp w =
    (Next ''CorrectLastId'' out, w')"
  shows "w' = w \<and> parameters (buildCreateDynamoDBUser t) inp \<noteq> None \<and>
    (\<exists>e. (e = ''DynamoDB.ConditionalCheckFailedException'' \<or>
          e = ''DynamoDb.TransactionCanceledException'') \<and>
         exec_task (buildCreateDynamoDBUser t) f inp w = (Inl e, w) \<and>
         set_field ''error'' (error_json e) inp = Some out)"
proof -
  obtain e where ex: "exec_task (buildCreateDynamoDBUser t) f inp w = (Inl e, w')"
    and e: "e = ''DynamoDB.ConditionalCheckFailedException'' \<or>
          e = ''DynamoDb.TransactionCanceledException''"
    and out: "set_field ''error'' (error_json e) inp = Some out"
    using assms
    by (auto simp: step_CreateDynamoDBUser split: prod.splits sum.splits option.splits if_splits)
  from e have "e \<noteq> ''States.Runtime''" by auto
  from exec_failure_parameters [OF ex this] exec_failure_unchanged [OF ex] ex e out
  show ?thesis by blast
qed

lemma corrector_success:
  assumes "step (buildStateMachine t u) f ''CorrectLastId'' inp w = (Next s out, w')"
  shows "s = ''FindLastId'' \<and> f = None \<and>
    (\<exists>p n. number_at [''context'', ''previousUserId''] inp = Some p \<and>
       number_at [''context'', ''userId''] inp = Some n \<and>
       lastId w = Some p \<and>
       w' = w\<lparr>table := advance_counter n (table w)\<rparr> \<and>
       set_field ''results'' (JObject []) inp = Some out)"
proof -
  obtain r where ex: "exec_task (buildCorrectLastId t) f inp w = (Inr r, w')"
    and out: "set_field ''results'' r inp = Some out" and s: "s = ''FindLastId''"
    using assms
    by (auto simp: step_CorrectLastId split: prod.splits sum.splits option.splits)
  from exec_success [OF ex] obtain x where f: "f = None"
    and x: "parameters (buildCorrectLastId t) inp = Some x" by auto
  from x obtain p n where pn: "number_at [''context'', ''previousUserId''] inp = Some p"
    "number_at [''context'', ''userId''] inp = Some n"
    and xeq: "x = Params (counter_update t p n)"
    by (auto simp: corrector_parameters split: option.splits)
  from ex f exec_corrector [OF x [unfolded xeq], of w]
  have "lastId w = Some p \<and> w' = w\<lparr>table := advance_counter n (table w)\<rparr> \<and> r = JObject []"
    by (auto split: if_splits)
  with s f pn out show ?thesis by blast
qed

lemma finder_success:
  assumes "step (buildStateMachine t u) f ''FindLastId'' inp w = (Next s out, w')"
  shows "s = ''CreateDynamoDBUser'' \<and> f = None \<and> w' = w \<and>
    (\<exists>c. lastId w = Some c \<and> set_field ''context'' (context_json c) inp = Some out)"
  using assms by (auto simp: finder_step split: option.splits)

lemma registrar_success:
  assumes "step (buildStateMachine t u) f ''CreateCognitoUser'' inp w = (Next ''Pass'' out, w')"
  shows "f = None \<and>
    (\<exists>uid email. string_at [''context'', ''userId''] inp = Some uid \<and>
       string_at [''emailAddress''] inp = Some email \<and>
       userPool w uid = None \<and> out = user_response uid email \<and>
       w' = w\<lparr>userPool := (userPool w)(uid \<mapsto>
              [(''email'', email), (''email_verified'', ''true'')])\<rparr>)"
proof -
  have ex: "exec_task (buildCreateCognitoUser u) f inp w = (Inr out, w')"
    using assms
    by (auto simp: step_CreateCognitoUser split: prod.splits sum.splits option.splits if_splits)
  from exec_success [OF ex] obtain x where f: "f = None"
    and x: "parameters (buildCreateCognitoUser u) inp = Some x" by auto
  from x obtain uid email where ue: "string_at [''context'', ''userId''] inp = Some uid"
    "string_at [''emailAddress''] inp = Some email"
    and xeq: "x = UserParams \<lparr>UserPoolId = userPoolId u, Username = uid,
      UserAttributes = [(''email'', email), (''email_verified'', ''true'')]\<rparr>"
    by (auto simp: registrar_parameters split: option.splits)
  from ex f exec_registrar [OF x [unfolded xeq], of w]
  have "userPool w uid = None \<and> out = user_response uid email \<and>
       w' = w\<lparr>userPool := (userPool w)(uid \<mapsto>
              [(''email'', email), (''email_verified'', ''true'')])\<rparr>"
    by (auto split: if_splits)
  with f ue show ?thesis by blast
qed

lemma registrar_caught:
  assumes "step (buildStateMachine t u) f ''CreateCognitoUser'' inp w =
    (Next ''RollbackUser'' out, w')"
  shows "w' = w \<and> parameters (buildCreateCognitoUser u) inp \<noteq> None \<and>
    exec_task (buildCreateCognitoUser u) f inp w =
      (Inl ''CognitoIdentityProvider.UsernameExistsException'', w) \<and>
    set_field ''error'' (error_json ''CognitoIdentityProvider.UsernameExistsException'') inp =
      Some out"
proof -
  let ?e = "''CognitoIdentityProvider.UsernameExistsException''"
  have ex: "exec_task (buildCreateCognitoUser u) f inp w = (Inl ?e, w')"
    and out: "set_field ''error'' (error_json ?e) inp = Some out"
    using assms
    by (auto simp: step_CreateCognitoUser split: prod.splits sum.splits option.splits if_splits)
  have "?e \<noteq> ''States.Runtime''" by simp
  from exec_failure_parameters [OF ex this] exec_failure_unchanged [OF ex] ex out
  show ?thesis by blast
qed


section \<open>The graph of the machine\<close>

lemma machine_edges:
  "edges (buildStateMachine t u) =
     [(''FindLastId'', None, ''CreateDynamoDBUser''),
      (''CreateDynamoDBUser'', None, ''CreateCognitoUser''),
      (''CreateDynamoDBUser'',
         Some [''DynamoDB.ConditionalCheckFailedException'',
               ''DynamoDb.TransactionCanceledException''], ''CorrectLastId''),
      (''CreateCognitoUser'', None, ''Pass''),
      (''CreateCognitoUser'',
         Some [''CognitoIdentityProvider.UsernameExistsException''], ''RollbackUser''),
      (''CorrectLastId'', None, ''FindLastId''),
      (''RollbackUser'', None, ''Fail'')]"
  by (simp add: edges_def machine_states)

lemma step_along_edges:
  assumes "step m f s inp w = (Next s' out, w')"
  shows "\<exists>l. (s, l, s') \<in> set (edges m)"
proof (cases "map_of (states m) s")
  case None
  with assms show ?thesis by (simp add: step_def)
next
  case (Some st)
  then have mem: "(s, st) \<in> set (states m)" by (rule map_of_SomeD)
  have "\<exists>l. (l, s') \<in> set (transitions st)"
  proof (cases st)
    case (CallAwsService tk)
    show ?thesis
    proof (cases "exec_task tk f inp w")
      case (Pair r w1)
      show ?thesis
      proof (cases r)
        case (Inr v)
        with assms Some CallAwsService Pair have "next_state tk = Some s'"
          by (auto simp: step_def split: option.splits)
        then show ?thesis using CallAwsService by auto
      next
        case (Inl e)
        with assms Some CallAwsService Pair obtain c where
          "find (catches e) (catchers tk) = Some c" "handler c = s'"
          by (auto simp: step_def split: option.splits)
        then have "c \<in> set (catchers tk)" by (auto simp: find_Some_iff)
        with \<open>handler c = s'\<close> have "(Some (errors c), s') \<in> set (transitions st)"
          using CallAwsService by force
        then show ?thesis by blast
      qed
    qed
  next
    case (Pass n)
    with assms Some show ?thesis by (auto simp: step_def split: option.splits)
  next
    case Fail
    with assms Some show ?thesis by (simp add: step_def)
  qed
  then obtain l where "(l, s') \<in> set (transitions st)" ..
  with mem have "(s, l, s') \<in> set (edges m)"
    by (force simp: edges_def)
  then show ?thesis ..
qed

lemma succeeded_at_Pass:
  assumes "step (buildStateMachine t u) f s inp w = (Succeeded out, w')"
  shows "s = ''Pass'' \<and> out = inp \<and> w' = w"
proof -
  show ?thesis
  proof (cases s rule: state_cases)
    case 1 with assms show ?thesis
      by (simp add: step_FindLastId split: prod.splits sum.splits option.splits)
  next
    case 2 with assms show ?thesis
      by (simp add: step_CreateDynamoDBUser split: prod.splits sum.splits option.splits if_splits)
  next
    case 3 with assms show ?thesis
      by (simp add: step_CreateCognitoUser split: prod.splits sum.splits option.splits if_splits)
  next
    case 4 with assms show ?thesis by (simp add: step_Pass)
  next
    case 5 with assms show ?thesis
      by (simp add: step_CorrectLastId split: prod.splits sum.splits option.splits)
  next
    case 6 with assms show ?thesis
      by (simp add: step_RollbackUser split: prod.splits sum.splits option.splits)
  next
    case 7 with assms show ?thesis by (simp add: step_Fail)
  next
    case 8 with assms show ?thesis using step_other [OF 8, of t u f inp w] by simp
  qed
qed

lemma context_paths:
  assumes "JsonPath [''context''] doc = Some (context_json c)"
  shows "string_at [''context'', ''userId''] doc = Some (string_of_int (c + 1))"
    and "string_at [''context'', ''previousUserId''] doc = Some (string_of_int c)"
    and "number_at [''context'', ''userId''] doc = Some (c + 1)"
    and "number_at [''context'', ''previousUserId''] doc = Some c"
  using assms
  by (cases "get_field ''context'' doc"; simp add: string_at_def number_at_def context_json_def)+

lemma only_finder_precedes_writer:
  assumes "step (buildStateMachine t u) g s1 inp1 w1 = (Next ''CreateDynamoDBUser'' inp2, w2)"
  shows "s1 = ''FindLastId''"
proof -
  from step_along_edges [OF assms] obtain l where
    "(s1, l, ''CreateDynamoDBUser'') \<in> set (edges (buildStateMachine t u))" ..
  then show ?thesis by (simp add: machine_edges)
qed


section \<open>Executions that succeed at the first attempt\<close>

lemma run_terminal: "terminal c \<Longrightarrow> run n m fs c = c"
  by (cases n; cases c; cases "fst c") (auto simp: terminal_def)

lemma run_Suc_Next:
  "run (Suc n) m fs (Next s inp, w) =
     run n m (tl fs) (step m (case fs of [] \<Rightarrow> None | f # _ \<Rightarrow> f) s inp w)"
  by simp

lemma run_not_Succeeded:
  assumes "run n m fs (Failed e, w) = (Succeeded out, w')"
  shows False
  using assms by (cases n) simp_all


lemma successors_of_writer:
  assumes "step (buildStateMachine t u) f ''CreateDynamoDBUser'' inp w = (Next s out, w')"
  shows "s = ''CreateCognitoUser'' \<or> s = ''CorrectLastId''"
proof -
  from step_along_edges [OF assms] obtain l where
    "(''CreateDynamoDBUser'', l, s) \<in> set (edges (buildStateMachine t u))" ..
  then show ?thesis by (auto simp: machine_edges)
qed

lemma successors_of_registrar:
  assumes "step (buildStateMachine t u) f ''CreateCognitoUser'' inp w = (Next s out, w')"
  shows "s = ''Pass'' \<or> s = ''RollbackUser''"
proof -
  from step_along_edges [OF assms] obtain l where
    "(''CreateCognitoUser'', l, s) \<in> set (edges (buildStateMachine t u))" ..
  then show ?thesis by (auto simp: machine_edges)
qed


lemma commit_effect:
  assumes "lastId w = Some p"
    and "w2 = w\<lparr>table := advance_counter n ((table w)(profile_key uid \<mapsto> it))\<rparr>"
  shows "lastId w2 = Some n \<and> table w2 (profile_key uid) = Some it \<and>
    (\<forall>k. k \<noteq> counter_key \<and> k \<noteq> profile_key uid \<longrightarrow> table w2 k = table w k) \<and>
    userPool w2 = userPool w"
proof -
  from assms(1) obtain i where i: "table w counter_key = Some i"
    by (auto simp: lastId_Some)
  have "lastId w2 = Some n"
    using i by (simp add: assms(2) lastId_def advance_counter_def update_conv')
  moreover have "table w2 (profile_key uid) = Some it"
    by (simp add: assms(2) advance_other)
  moreover have "\<forall>k. k \<noteq> counter_key \<and> k \<noteq> profile_key uid \<longrightarrow> table w2 k = table w k"
    by (simp add: assms(2) advance_other)
  moreover have "userPool w2 = userPool w" by (simp add: assms(2))
  ultimately show ?thesis by blast
qed

lemma user_response_name:
  "JsonPath [''User'', ''Username''] (user_response uid email) = Some (JString uid)"
  by (simp add: user_response_def)



section \<open>What every execution keeps\<close>

lemma committed_response:
  assumes "lastId w = Some c" and "table w (profile_key (string_of_int c)) \<noteq> None"
    and "userPool w (string_of_int c) \<noteq> None"
  shows "committed (user_response (string_of_int c) email) w"
  using assms unfolding committed_def user_response_name by simp

lemma on_track_step:
  assumes inv: "on_track (Next s doc, w)"
  shows "on_track (step (buildStateMachine t u) f s doc w)"
proof -
  let ?m = "buildStateMachine t u"
  obtain out w' where st: "step ?m f s doc w = (out, w')" by force
  show ?thesis
  proof (cases out)
    case (Failed e)
    with st show ?thesis by (simp add: on_track_def)
  next
    case (Succeeded x)
    with st succeeded_at_Pass [of t u f s doc w x w']
    have "s = ''Pass''" "x = doc" "w' = w" by simp_all
    with inv st Succeeded show ?thesis by (simp add: on_track_def)
  next
    case (Next s' doc')
    with st have n: "step ?m f s doc w = (Next s' doc', w')" by simp
    from step_along_edges [OF n] obtain l where
      e: "(s, l, s') \<in> set (edges ?m)" ..
    have "on_track (Next s' doc', w')"
    proof (cases "s' = ''CreateDynamoDBUser''")
      case True
      with only_finder_precedes_writer [of t u f s doc w doc' w'] n
      have s: "s = ''FindLastId''" by simp
      from finder_success [of t u f doc w s' doc' w'] n s obtain c where
        "set_field ''context'' (context_json c) doc = Some doc'" by auto
      from set_field_same [OF this] True show ?thesis
        by (auto simp: on_track_def simp del: JsonPath.simps)
    next
      case notW: False
      show ?thesis
      proof (cases "s' = ''CreateCognitoUser''")
        case True
        with e have s: "s = ''CreateDynamoDBUser''" by (auto simp: machine_edges)
        from inv s obtain c where c: "JsonPath [''context''] doc = Some (context_json c)"
          by (auto simp: on_track_def simp del: JsonPath.simps)
        note ctx = context_paths [OF c]
        from writer_success [of t u f doc w doc' w'] n s True ctx obtain it where
          d: "doc' = doc" and l: "lastId w = Some c"
          and w': "w' = w\<lparr>table := advance_counter (c + 1)
              ((table w)(profile_key (string_of_int (c + 1)) \<mapsto> it))\<rparr>"
          by auto
        from commit_effect [OF l w'] c d True show ?thesis
          by (auto simp: on_track_def simp del: JsonPath.simps)
      next
        case notK: False
        show ?thesis
        proof (cases "s' = ''Pass''")
          case True
          with e have s: "s = ''CreateCognitoUser''" by (auto simp: machine_edges)
          from inv s obtain c where c: "JsonPath [''context''] doc = Some (context_json c)"
            and l: "lastId w = Some (c + 1)"
            and p: "table w (profile_key (string_of_int (c + 1))) \<noteq> None"
            by (auto simp: on_track_def simp del: JsonPath.simps)
          note ctx = context_paths [OF c]
          from registrar_success [of t u f doc w doc' w'] n s True ctx obtain email where
            d: "doc' = user_response (string_of_int (c + 1)) email"
            and w': "w' = w\<lparr>userPool := (userPool w)(string_of_int (c + 1) \<mapsto>
              [(''email'', email), (''email_verified'', ''true'')])\<rparr>"
            by auto
          have "committed doc' w'"
            unfolding d using l p by (intro committed_response) (simp_all add: w' lastId_def)
          with True show ?thesis by (simp add: on_track_def)
        next
          case False
          with notW notK show ?thesis by (simp add: on_track_def)
        qed
      qed
    qed
    with n show ?thesis by simp
  qed
qed

lemma on_track_run:
  assumes "on_track c"
  shows "on_track (run n (buildStateMachine t u) fs c)"
  using assms
proof (induction n arbitrary: fs c)
  case 0
  then show ?case by simp
next
  case (Suc n)
  obtain out w where c: "c = (out, w)" by force
  show ?case
  proof (cases out)
    case (Next s doc)
    with Suc.prems c have "on_track (step (buildStateMachine t u)
        (case fs of [] \<Rightarrow> None | f # _ \<Rightarrow> f) s doc w)"
      by (simp add: on_track_step)
    from Suc.IH [OF this] Next c show ?thesis by simp
  next
    case (Succeeded x)
    with Suc.prems c show ?thesis by simp
  next
    case (Failed e)
    with Suc.prems c show ?thesis by simp
  qed
qed



lemma step_document:
  assumes st: "step (buildStateMachine t u) f s doc w = (Next s' doc', w')"
    and s': "s' \<noteq> ''Pass''"
  shows "doc' = doc \<or>
    (\<exists>k v. (k = ''context'' \<or> k = ''error'' \<or> k = ''results'') \<and>
       set_field k v doc = Some doc')"
proof (cases s rule: state_cases)
  case 1
  with finder_success [of t u f doc w s' doc' w'] st show ?thesis by auto
next
  case 2
  from successors_of_writer [of t u f doc w s' doc' w'] st 2
  have "s' = ''CreateCognitoUser'' \<or> s' = ''CorrectLastId''" by simp
  then show ?thesis
  proof
    assume "s' = ''CreateCognitoUser''"
    with writer_success [of t u f doc w doc' w'] st 2 show ?thesis by simp
  next
    assume "s' = ''CorrectLastId''"
    with writer_caught [of t u f doc w doc' w'] st 2 show ?thesis by auto
  qed
next
  case 3
  from successors_of_registrar [of t u f doc w s' doc' w'] st 3 s'
  have "s' = ''RollbackUser''" by simp
  with registrar_caught [of t u f doc w doc' w'] st 3 show ?thesis by auto
next
  case 4
  with st show ?thesis by (simp add: step_Pass)
next
  case 5
  with corrector_success [of t u f doc w s' doc' w'] st show ?thesis by auto
next
  case 6
  with st show ?thesis
    by (auto simp: step_RollbackUser split: prod.splits sum.splits option.splits)
next
  case 7
  with st show ?thesis by (simp add: step_Fail)
next
  case 8
  from step_other [OF 8, of t u f doc w] st show ?thesis by simp
qed

lemma keeps_step:
  assumes inv: "keeps inp (Next s doc, w)"
  shows "keeps inp (step (buildStateMachine t u) f s doc w)"
proof -
  obtain out w' where st: "step (buildStateMachine t u) f s doc w = (out, w')" by force
  show ?thesis
  proof (cases out)
    case (Next s' doc')
    show ?thesis
    proof (cases "s' = ''Pass''")
      case True
      with st Next show ?thesis by (simp add: keeps_def)
    next
      case False
      from st Next have n: "step (buildStateMachine t u) f s doc w = (Next s' doc', w')"
        by simp
      from step_along_edges [OF n] have "s \<noteq> ''Pass''"
        by (auto simp: machine_edges)
      with inv have k: "\<forall>k ks. k \<noteq> ''context'' \<and> k \<noteq> ''error'' \<and> k \<noteq> ''results'' \<longrightarrow>
             JsonPath (k # ks) doc = JsonPath (k # ks) inp"
        by (simp add: keeps_def del: JsonPath.simps)
      from step_document [OF n False]
      have "\<forall>k ks. k \<noteq> ''context'' \<and> k \<noteq> ''error'' \<and> k \<noteq> ''results'' \<longrightarrow>
             JsonPath (k # ks) doc' = JsonPath (k # ks) doc"
        using set_field_other [of _ _ doc doc'] by (elim disjE exE conjE) simp_all
      with k st Next False show ?thesis by (simp add: keeps_def del: JsonPath.simps)
    qed
  next
    case (Succeeded x)
    with st show ?thesis by (simp add: keeps_def)
  next
    case (Failed e)
    with st show ?thesis by (simp add: keeps_def)
  qed
qed

lemma keeps_run:
  assumes "keeps inp c"
  shows "keeps inp (run n (buildStateMachine t u) fs c)"
  using assms
proof (induction n arbitrary: fs c)
  case 0
  then show ?case by simp
next
  case (Suc n)
  obtain out w where c: "c = (out, w)" by force
  show ?case
  proof (cases out)
    case (Next s doc)
    with Suc.prems c have "keeps inp (step (buildStateMachine t u)
        (case fs of [] \<Rightarrow> None | f # _ \<Rightarrow> f) s doc w)"
      by (simp add: keeps_step)
    from Suc.IH [OF this] Next c show ?thesis by simp
  next
    case (Succeeded x)
    with Suc.prems c show ?thesis by simp
  next
    case (Failed e)
    with Suc.prems c show ?thesis by simp
  qed
qed

lemma registration_reached:
  assumes r: "run n (buildStateMachine t u) fs (start (buildStateMachine t u) inp w) =
    (Next ''CreateCognitoUser'' doc, w')"
  shows "\<exists>c. string_at [''context'', ''userId''] doc = Some (string_of_int (c + 1)) \<and>
    lastId w' = Some (c + 1) \<and>
    string_at [''emailAddress''] doc = string_at [''emailAddress''] inp"
proof -
  let ?m = "buildStateMachine t u"
  have "on_track (start ?m inp w)"
    by (simp add: start_def machine_start on_track_def)
  from on_track_run [OF this, of n t u fs] r obtain c where
    c: "JsonPath [''context''] doc = Some (context_json c)" and l: "lastId w' = Some (c + 1)"
    by (auto simp: on_track_def simp del: JsonPath.simps)
  have "keeps inp (start ?m inp w)"
    by (simp add: start_def keeps_def)
  from keeps_run [OF this, of n t u fs] r
  have "JsonPath [''emailAddress''] doc = JsonPath [''emailAddress''] inp"
    by (simp add: keeps_def del: JsonPath.simps)
  then have "string_at [''emailAddress''] doc = string_at [''emailAddress''] inp"
    by (simp add: string_at_def del: JsonPath.simps)
  with context_paths(1) [OF c] l show ?thesis by blast
qed

section \<open>Every execution ends\<close>
























section \<open>Evaluation on the sample deployment\<close>

lemma numerals:
  "string_of_int 41 = ''41''" "string_of_int 42 = ''42''" "string_of_int 43 = ''43''"
  "string_of_int 7 = ''7''" "string_of_int 8 = ''8''"
  by (simp_all add: string_of_int_def string_of_nat.simps digit_char_def)

lemma read_numerals:
  "int_of_string ''41'' = Some 41" "int_of_string ''42'' = Some 42"
  "int_of_string ''43'' = Some 43"
  by (simp_all add: int_of_string_def nat_of_string_def is_digit_def digit_val_def)

lemma lastId_store [simp]: "lastId (store n) = Some n"
  by (simp add: lastId_def store_def counter_item_def)

lemma lastId_stale_store [simp]: "lastId stale_store = Some 41"
  by (simp add: lastId_def stale_store_def counter_item_def)

lemma allocated_paths:
  "string_at [''context'', ''userId''] (JObject (allocated a b)) = Some b"
  "string_at [''context'', ''previousUserId''] (JObject (allocated a b)) = Some a"
  "string_at [''firstName''] (JObject (allocated a b)) = Some ''Ada''"
  "string_at [''lastName''] (JObject (allocated a b)) = Some ''Lovelace''"
  "string_at [''emailAddress''] (JObject (allocated a b)) = Some ''ada@example.org''"
  "string_at [''phoneNumber''] (JObject (allocated a b)) = Some ''5550100''"
  by (simp_all add: allocated_def request_def string_at_def)

lemma allocated_numbers:
  "number_at [''context'', ''userId''] (JObject (allocated a b)) = int_of_string b"
  "number_at [''context'', ''previousUserId''] (JObject (allocated a b)) = int_of_string a"
  by (simp_all add: number_at_def allocated_paths)

lemma caught_document:
  "AList.update ''error'' (error_json e) (allocated a b) =
     allocated a b @ [(''error'', JObject [(''Error'', JString e)])]"
  by (simp add: allocated_def request_def error_json_def)

lemma writer_parameters_sample:
  "parameters (buildCreateDynamoDBUser sampleTable) (JObject (allocated ''41'' ''42'')) =
     Some (TransactItems
       [Put (profile_put sampleTable
          (profile_item ''42'' ''Ada'' ''Lovelace'' ''ada@example.org'' ''5550100'')),
        Update (counter_update sampleTable 41 42)])"
  by (simp add: writer_parameters allocated_paths allocated_numbers read_numerals)

lemma writer_fault_sample:
  "step UserCreation (Some ''DynamoDb.TransactionCanceledException'') ''CreateDynamoDBUser''
     (JObject (allocated ''41'' ''42'')) (store 41) =
   (Next ''CorrectLastId''
     (JObject (allocated ''41'' ''42'' @
        [(''error'', JObject [(''Error'', JString ''DynamoDb.TransactionCanceledException'')])])),
    store 41)"
  unfolding UserCreation_def
  by (simp add: step_CreateDynamoDBUser exec_fault [OF writer_parameters_sample]
      caught_document)


lemma rejected_numbers:
  "number_at [''context'', ''previousUserId'']
     (JObject (allocated a b @ [(''error'', e)])) = int_of_string a"
  "number_at [''context'', ''userId'']
     (JObject (allocated a b @ [(''error'', e)])) = int_of_string b"
  by (simp_all add: number_at_def string_at_def allocated_def request_def)

lemma lastId_committed_store [simp]: "lastId committed_store = Some 42"
  by (simp add: lastId_def committed_store_def counter_item_def)

lemma commit_store_41:
  "(store 41)\<lparr>table := advance_counter 42 ((table (store 41))(profile_key ''42'' \<mapsto>
      profile_item ''42'' ''Ada'' ''Lovelace'' ''ada@example.org'' ''5550100''))\<rparr> =
   committed_store"
  by (simp add: store_def committed_store_def advance_counter_def counter_item_def fun_eq_iff)

lemma writer_commits_sample:
  "step UserCreation None ''CreateDynamoDBUser'' (JObject (allocated ''41'' ''42'')) (store 41) =
     (Next ''CreateCognitoUser'' (JObject (allocated ''41'' ''42'')), committed_store)"
proof -
  have "free_key (table (store 41)) ''42''"
    by (simp add: free_key_def store_def)
  then show ?thesis
    unfolding UserCreation_def
    by (simp add: step_CreateDynamoDBUser exec_writer [OF writer_parameters_sample]
        commit_store_41 del: fun_upd_apply)
qed

lemma writer_loses_sample:
  "step UserCreation None ''CreateDynamoDBUser'' (JObject (allocated ''41'' ''42''))
     committed_store =
     (Next ''CorrectLastId''
        (JObject (allocated ''41'' ''42'' @
           [(''error'', JObject [(''Error'', JString ''DynamoDb.TransactionCanceledException'')])])),
      committed_store)"
  unfolding UserCreation_def
  by (simp add: step_CreateDynamoDBUser exec_writer [OF writer_parameters_sample]
      caught_document)

lemma finder_sample:
  "step UserCreation None ''FindLastId'' (JObject request) (store 41) =
     (Next ''CreateDynamoDBUser'' (JObject (allocated ''41'' ''42'')), store 41)"
  by (simp add: UserCreation_def finder_step context_json_def numerals request_def
      allocated_def)

lemma registrar_duplicate_sample:
  "exec_task (buildCreateCognitoUser samplePool) None (JObject (allocated ''41'' ''42''))
     duplicate_store =
   (Inl ''CognitoIdentityProvider.UsernameExistsException'', duplicate_store)"
proof -
  have "parameters (buildCreateCognitoUser samplePool) (JObject (allocated ''41'' ''42'')) =
    Some (UserParams \<lparr>UserPoolId = userPoolId samplePool, Username = ''42'',
      UserAttributes = [(''email'', ''ada@example.org''), (''email_verified'', ''true'')]\<rparr>)"
    by (simp add: registrar_parameters allocated_paths)
  from exec_registrar [OF this, of duplicate_store] show ?thesis
    by (simp add: duplicate_store_def)
qed

lemma lastId_duplicate_store [simp]: "lastId duplicate_store = Some 42"
  by (simp add: lastId_def duplicate_store_def counter_item_def)




lemma two_steps_sample:
  "run 2 UserCreation [] (start UserCreation (JObject request) (store 41)) =
     (Next ''CreateCognitoUser'' (JObject (allocated ''41'' ''42'')), committed_store)"
proof -
  have "startAt UserCreation = ''FindLastId''"
    by (simp add: UserCreation_def machine_start)
  then show ?thesis
    by (simp add: start_def eval_nat_numeral finder_sample writer_commits_sample)
qed






lemma rollback_run_sample:
  "run 2 UserCreation [] (start UserCreation (JObject request) taken_store) =
     (Next ''CreateCognitoUser'' (JObject (allocated ''41'' ''42'')), duplicate_store)"
proof -
  have 1: "step UserCreation None ''FindLastId'' (JObject request) taken_store =
     (Next ''CreateDynamoDBUser'' (JObject (allocated ''41'' ''42'')), taken_store)"
    by (simp add: UserCreation_def finder_step context_json_def numerals request_def
        allocated_def lastId_def taken_store_def counter_item_def)
  have "free_key (table taken_store) ''42''" "lastId taken_store = Some 41"
    by (simp_all add: free_key_def taken_store_def lastId_def counter_item_def)
  moreover have "taken_store\<lparr>table := advance_counter 42 ((table taken_store)
      (profile_key ''42'' \<mapsto>
        profile_item ''42'' ''Ada'' ''Lovelace'' ''ada@example.org'' ''5550100''))\<rparr> =
      duplicate_store"
    by (simp add: taken_store_def duplicate_store_def advance_counter_def counter_item_def
        fun_eq_iff)
  ultimately have 2: "step UserCreation None ''CreateDynamoDBUser''
      (JObject (allocated ''41'' ''42'')) taken_store =
     (Next ''CreateCognitoUser'' (JObject (allocated ''41'' ''42'')), duplicate_store)"
    unfolding UserCreation_def
    by (simp add: step_CreateDynamoDBUser exec_writer [OF writer_parameters_sample]
        del: fun_upd_apply)
  have "startAt UserCreation = ''FindLastId''"
    by (simp add: UserCreation_def machine_start)
  then show ?thesis
    by (simp add: start_def eval_nat_numeral 1 2)
qed




lemma registrar_caught_sample:
  "step UserCreation None ''CreateCognitoUser'' (JObject (allocated ''41'' ''42''))
     duplicate_store =
     (Next ''RollbackUser''
        (JObject (allocated ''41'' ''42'' @
           [(''error'', JObject [(''Error'',
              JString ''CognitoIdentityProvider.UsernameExistsException'')])])),
      duplicate_store)"
  by (simp add: UserCreation_def step_CreateCognitoUser registrar_duplicate_sample
      caught_document)

section \<open>The claims\<close>

subsection \<open>C1\<close>




subsection \<open>C2\<close>




subsection \<open>C3\<close>



subsection \<open>C4\<close>

text \<open>
  C4. Duplicate identity. When the registration fails with
  \<open>UsernameExistsException\<close>, the pool and the table are as they were, the machine runs
  \<open>RollbackUser\<close>, which deletes the profile item of the \<open>userId\<close> of the document, and
  ends in \<open>Fail\<close> after three steps, with no further allocation. The counter item is
  not touched: \<open>LastId\<close> keeps the value the write gave it, which in an execution that
  reached the registration from its start is the allocated id itself.
\<close>

theorem duplicate_identity_rollback:
  assumes "exec_task (buildCreateCognitoUser u) f inp w =
    (Inl ''CognitoIdentityProvider.UsernameExistsException'', w')"
  shows "w' = w \<and>
    (\<exists>uid. string_at [''context'', ''userId''] inp = Some uid \<and>
       run 3 (buildStateMachine t u) (f # None # fs) (Next ''CreateCognitoUser'' inp, w) =
         (Failed None, w\<lparr>table := (table w)(profile_key uid := None)\<rparr>) \<and>
       table (w\<lparr>table := (table w)(profile_key uid := None)\<rparr>) (profile_key uid) = None \<and>
       lastId (w\<lparr>table := (table w)(profile_key uid := None)\<rparr>) = lastId w \<and>
       (\<forall>n fs0 inp0 w0.
          run n (buildStateMachine t u) fs0 (start (buildStateMachine t u) inp0 w0) =
            (Next ''CreateCognitoUser'' inp, w) \<longrightarrow>
          (\<exists>c. uid = string_of_int (c + 1) \<and>
             lastId (w\<lparr>table := (table w)(profile_key uid := None)\<rparr>) = Some (c + 1))))"
proof -
  let ?e = "''CognitoIdentityProvider.UsernameExistsException''"
  have w: "w' = w" using assms by (rule exec_failure_unchanged)
  have "?e \<noteq> ''States.Runtime''" by simp
  from exec_failure_parameters [OF assms this] obtain x where
    x: "parameters (buildCreateCognitoUser u) inp = Some x" by auto
  then obtain uid where uid: "string_at [''context'', ''userId''] inp = Some uid"
    by (auto simp: registrar_parameters split: option.splits)
  from registrar_parameters_object [OF x] obtain kvs where kvs: "inp = JObject kvs" ..
  define doc where "doc = JObject (AList.update ''error'' (error_json ?e) kvs)"
  have caught: "set_field ''error'' (error_json ?e) inp = Some doc"
    by (simp add: kvs doc_def)
  have s1: "step (buildStateMachine t u) f ''CreateCognitoUser'' inp w =
      (Next ''RollbackUser'' doc, w)"
    using assms w caught by (simp add: step_CreateCognitoUser)
  have "JsonPath [''context'', ''userId''] doc = JsonPath [''context'', ''userId''] inp"
    using set_field_other [OF caught, of "''context''"] by simp
  with uid have "JsonPath [''context'', ''userId''] doc = Some (JString uid)"
    by (simp add: string_at_JsonPath del: JsonPath.simps)
  then have rp: "parameters (buildRollbackUser t) doc = Some (Params (profile_delete t uid))"
    by (simp add: rollback_parameters del: JsonPath.simps)
  obtain doc' where doc': "set_field ''results'' (JObject []) doc = Some doc'"
    by (simp add: doc_def)
  have s2: "step (buildStateMachine t u) None ''RollbackUser'' doc w =
      (Next ''Fail'' doc', w\<lparr>table := (table w)(profile_key uid := None)\<rparr>)"
    using doc' by (simp add: step_RollbackUser exec_rollback [OF rp] del: fun_upd_apply)
  have r: "run 3 (buildStateMachine t u) (f # None # fs) (Next ''CreateCognitoUser'' inp, w) =
         (Failed None, w\<lparr>table := (table w)(profile_key uid := None)\<rparr>)"
    by (simp add: numeral_3_eq_3 s1 s2 step_Fail del: fun_upd_apply)
  have l: "lastId (w\<lparr>table := (table w)(profile_key uid := None)\<rparr>) = lastId w"
    by (simp add: lastId_def)
  have a: "\<forall>n fs0 inp0 w0.
          run n (buildStateMachine t u) fs0 (start (buildStateMachine t u) inp0 w0) =
            (Next ''CreateCognitoUser'' inp, w) \<longrightarrow>
          (\<exists>c. uid = string_of_int (c + 1) \<and>
             lastId (w\<lparr>table := (table w)(profile_key uid := None)\<rparr>) = Some (c + 1))"
    using registration_reached [of _ t u _ _ _ inp w] uid l by fastforce
  from w uid r l a show ?thesis by simp
qed

theorem duplicate_identity_rollback_witness:
  "run 2 UserCreation [] (start UserCreation (JObject request) taken_store) =
     (Next ''CreateCognitoUser'' (JObject (allocated ''41'' ''42'')), duplicate_store) \<and>
   exec_task (buildCreateCognitoUser samplePool) None (JObject (allocated ''41'' ''42''))
     duplicate_store =
     (Inl ''CognitoIdentityProvider.UsernameExistsException'', duplicate_store) \<and>
   table duplicate_store (profile_key ''42'') =
     Some (profile_item ''42'' ''Ada'' ''Lovelace'' ''ada@example.org'' ''5550100'') \<and>
   run 3 UserCreation [None, None]
     (Next ''CreateCognitoUser'' (JObject (allocated ''41'' ''42'')), duplicate_store) =
     (Failed None,
      duplicate_store\<lparr>table := (table duplicate_store)(profile_key ''42'' := None)\<rparr>) \<and>
   table (duplicate_store\<lparr>table := (table duplicate_store)(profile_key ''42'' := None)\<rparr>)
     (profile_key ''42'') = None \<and>
   lastId (duplicate_store\<lparr>table := (table duplicate_store)(profile_key ''42'' := None)\<rparr>) =
     Some 42"
proof -
  have u: "string_at [''context'', ''userId''] (JObject (allocated ''41'' ''42'')) = Some ''42''"
    by (simp add: allocated_paths)
  have t: "table duplicate_store (profile_key ''42'') =
     Some (profile_item ''42'' ''Ada'' ''Lovelace'' ''ada@example.org'' ''5550100'')"
    by (simp add: duplicate_store_def)
  from duplicate_identity_rollback [OF registrar_duplicate_sample, of sampleTable "[]"]
    registrar_duplicate_sample u t rollback_run_sample
  show ?thesis unfolding UserCreation_def by (simp del: fun_upd_apply)
qed

subsection \<open>C5\<close>

text \<open>
  C5, as the machine has it. \<open>CorrectLastId\<close> has no catcher. When the counter is
  not \<open>previousUserId\<close>, its conditional update fails, the table is as it was, and the
  failure ends the execution: the machine does not go back to \<open>FindLastId\<close>. When the
  counter still is \<open>previousUserId\<close>, the update sets it to \<open>userId\<close> and the machine
  goes to \<open>FindLastId\<close>. A fault of the service ends the execution as well.
\<close>

theorem corrector_outcome:
  assumes "number_at [''context'', ''previousUserId''] inp = Some p"
    and "number_at [''context'', ''userId''] inp = Some n"
  shows "(lastId w \<noteq> Some p \<longrightarrow>
       step (buildStateMachine t u) None ''CorrectLastId'' inp w =
         (Failed (Some ''DynamoDb.ConditionalCheckFailedException''), w)) \<and>
    (lastId w = Some p \<longrightarrow>
       (\<exists>kvs. inp = JObject kvs \<and>
          step (buildStateMachine t u) None ''CorrectLastId'' inp w =
            (Next ''FindLastId'' (JObject (AList.update ''results'' (JObject []) kvs)),
             w\<lparr>table := advance_counter n (table w)\<rparr>)) \<and>
       lastId (w\<lparr>table := advance_counter n (table w)\<rparr>) = Some n) \<and>
    (\<forall>e. step (buildStateMachine t u) (Some e) ''CorrectLastId'' inp w = (Failed (Some e), w))"
proof -
  have x: "parameters (buildCorrectLastId t) inp = Some (Params (counter_update t p n))"
    using assms by (simp add: corrector_parameters)
  from corrector_parameters_object [OF x] obtain kvs where kvs: "inp = JObject kvs" ..
  have 1: "lastId w \<noteq> Some p \<longrightarrow>
       step (buildStateMachine t u) None ''CorrectLastId'' inp w =
         (Failed (Some ''DynamoDb.ConditionalCheckFailedException''), w)"
    by (simp add: step_CorrectLastId exec_corrector [OF x])
  have 2: "lastId w = Some p \<longrightarrow>
       (\<exists>kvs. inp = JObject kvs \<and>
          step (buildStateMachine t u) None ''CorrectLastId'' inp w =
            (Next ''FindLastId'' (JObject (AList.update ''results'' (JObject []) kvs)),
             w\<lparr>table := advance_counter n (table w)\<rparr>))"
    using kvs exec_corrector [OF x, of w] by (simp add: step_CorrectLastId)
  have 3: "lastId w = Some p \<longrightarrow> lastId (w\<lparr>table := advance_counter n (table w)\<rparr>) = Some n"
    using lastId_advance [of w n] by (auto simp: lastId_Some)
  have 4: "\<forall>e. step (buildStateMachine t u) (Some e) ''CorrectLastId'' inp w =
      (Failed (Some e), w)"
    by (simp add: step_CorrectLastId exec_fault [OF x])
  from 1 2 3 4 show ?thesis by blast
qed

text \<open>
  C5 as stated fails on the scenario of two executions that read the counter 41: both
  allocate 42, the first commits, the write of the second is rejected and caught, and the
  conditional update of its \<open>CorrectLastId\<close> fails with the counter at 42; the second
  execution ends there instead of allocating again.
\<close>

theorem corrector_halts_counterexample:
  "step UserCreation None ''FindLastId'' (JObject request) (store 41) =
     (Next ''CreateDynamoDBUser'' (JObject (allocated ''41'' ''42'')), store 41) \<and>
   step UserCreation None ''CreateDynamoDBUser'' (JObject (allocated ''41'' ''42'')) (store 41) =
     (Next ''CreateCognitoUser'' (JObject (allocated ''41'' ''42'')), committed_store) \<and>
   step UserCreation None ''CreateDynamoDBUser'' (JObject (allocated ''41'' ''42''))
     committed_store =
     (Next ''CorrectLastId''
        (JObject (allocated ''41'' ''42'' @
           [(''error'', JObject [(''Error'', JString ''DynamoDb.TransactionCanceledException'')])])),
      committed_store) \<and>
   lastId committed_store = Some 42 \<and>
   step UserCreation None ''CorrectLastId''
     (JObject (allocated ''41'' ''42'' @
        [(''error'', JObject [(''Error'', JString ''DynamoDb.TransactionCanceledException'')])]))
     committed_store =
     (Failed (Some ''DynamoDb.ConditionalCheckFailedException''), committed_store)"
proof -
  have "parameters (buildCorrectLastId sampleTable)
     (JObject (allocated ''41'' ''42'' @
        [(''error'', JObject [(''Error'', JString ''DynamoDb.TransactionCanceledException'')])])) =
     Some (Params (counter_update sampleTable 41 42))"
    by (simp add: corrector_parameters rejected_numbers read_numerals)
  from exec_corrector [OF this, of committed_store]
  have "step UserCreation None ''CorrectLastId''
     (JObject (allocated ''41'' ''42'' @
        [(''error'', JObject [(''Error'', JString ''DynamoDb.TransactionCanceledException'')])]))
     committed_store =
     (Failed (Some ''DynamoDb.ConditionalCheckFailedException''), committed_store)"
    unfolding UserCreation_def by (simp add: step_CorrectLastId)
  with finder_sample writer_commits_sample writer_loses_sample show ?thesis by simp
qed

theorem corrector_outcome_witness:
  "number_at [''context'', ''previousUserId''] (JObject (allocated ''41'' ''42'')) = Some 41 \<and>
   number_at [''context'', ''userId''] (JObject (allocated ''41'' ''42'')) = Some 42 \<and>
   lastId committed_store \<noteq> Some 41 \<and>
   step UserCreation None ''CorrectLastId'' (JObject (allocated ''41'' ''42'')) committed_store =
     (Failed (Some ''DynamoDb.ConditionalCheckFailedException''), committed_store) \<and>
   lastId stale_store = Some 41 \<and>
   step UserCreation None ''CorrectLastId'' (JObject (allocated ''41'' ''42'')) stale_store =
     (Next ''FindLastId'' (JObject (allocated ''41'' ''42'' @  [(''results'', JObject [])])),
      stale_store\<lparr>table := advance_counter 42 (table stale_store)\<rparr>) \<and>
   lastId (stale_store\<lparr>table := advance_counter 42 (table stale_store)\<rparr>) = Some 42"
proof -
  have p: "number_at [''context'', ''previousUserId''] (JObject (allocated ''41'' ''42'')) = Some 41"
    and n: "number_at [''context'', ''userId''] (JObject (allocated ''41'' ''42'')) = Some 42"
    by (simp_all add: allocated_numbers read_numerals)
  have r: "AList.update ''results'' (JObject []) (allocated ''41'' ''42'') =
      allocated ''41'' ''42'' @ [(''results'', JObject [])]"
    by (simp add: allocated_def request_def)
  from corrector_outcome [OF p n, of committed_store sampleTable samplePool]
    corrector_outcome [OF p n, of stale_store sampleTable samplePool] p n r
  show ?thesis unfolding UserCreation_def by simp
qed

subsection \<open>C6\<close>



subsection \<open>C7\<close>

text \<open>
  C7. The step graph. The machine starts at \<open>FindLastId\<close> (Allocate); its transitions are
  the happy path \<open>FindLastId\<close>, \<open>CreateDynamoDBUser\<close> (Write), \<open>CreateCognitoUser\<close>
  (Register), \<open>Pass\<close> (Success), and the two compensation paths: from the write, on the
  two listed errors, to \<open>CorrectLastId\<close> and back to \<open>FindLastId\<close>, and from the
  registration, on the listed error, to \<open>RollbackUser\<close> and on to \<open>Fail\<close> (Failure).
  \<open>Pass\<close> and \<open>Fail\<close> are the only states without a transition. A step moves along
  one of these transitions only, and only \<open>Pass\<close> ends an execution in success.
\<close>

theorem saga_graph:
  "startAt (buildStateMachine t u) = ''FindLastId'' \<and>
   edges (buildStateMachine t u) =
     [(''FindLastId'', None, ''CreateDynamoDBUser''),
      (''CreateDynamoDBUser'', None, ''CreateCognitoUser''),
      (''CreateDynamoDBUser'',
         Some [''DynamoDB.ConditionalCheckFailedException'',
               ''DynamoDb.TransactionCanceledException''], ''CorrectLastId''),
      (''CreateCognitoUser'', None, ''Pass''),
      (''CreateCognitoUser'',
         Some [''CognitoIdentityProvider.UsernameExistsException''], ''RollbackUser''),
      (''CorrectLastId'', None, ''FindLastId''),
      (''RollbackUser'', None, ''Fail'')] \<and>
   map fst (filter (\<lambda>(s, st). transitions st = []) (states (buildStateMachine t u))) =
     [''Pass'', ''Fail''] \<and>
   map_of (states (buildStateMachine t u)) ''Pass'' = Some (Pass None) \<and>
   map_of (states (buildStateMachine t u)) ''Fail'' = Some Fail \<and>
   (\<forall>f s inp w s' out w'.
      step (buildStateMachine t u) f s inp w = (Next s' out, w') \<longrightarrow>
      (\<exists>l. (s, l, s') \<in> set (edges (buildStateMachine t u)))) \<and>
   (\<forall>f s inp w out w'.
      step (buildStateMachine t u) f s inp w = (Succeeded out, w') \<longrightarrow> s = ''Pass'')"
proof -
  have 1: "map fst (filter (\<lambda>(s, st). transitions st = []) (states (buildStateMachine t u))) =
     [''Pass'', ''Fail'']"
    by (simp add: machine_states)
  have 2: "map_of (states (buildStateMachine t u)) ''Pass'' = Some (Pass None)"
    "map_of (states (buildStateMachine t u)) ''Fail'' = Some Fail"
    by (simp_all add: machine_states)
  have 3: "\<forall>f s inp w s' out w'.
      step (buildStateMachine t u) f s inp w = (Next s' out, w') \<longrightarrow>
      (\<exists>l. (s, l, s') \<in> set (edges (buildStateMachine t u)))"
    using step_along_edges by blast
  have 4: "\<forall>f s inp w out w'.
      step (buildStateMachine t u) f s inp w = (Succeeded out, w') \<longrightarrow> s = ''Pass''"
    using succeeded_at_Pass by blast
  show ?thesis
    using machine_start [of t u] machine_edges [of t u] 1 2 3 4 by (simp only: simp_thms)
qed

theorem saga_graph_witness:
  "step UserCreation None ''FindLastId'' (JObject request) (store 41) =
     (Next ''CreateDynamoDBUser'' (JObject (allocated ''41'' ''42'')), store 41) \<and>
   (\<exists>l. (''FindLastId'', l, ''CreateDynamoDBUser'') \<in> set (edges UserCreation)) \<and>
   step UserCreation None ''Pass'' (user_response ''42'' ''ada@example.org'') committed_store =
     (Succeeded (user_response ''42'' ''ada@example.org''), committed_store)"
proof -
  have s: "step UserCreation None ''FindLastId'' (JObject request) (store 41) =
     (Next ''CreateDynamoDBUser'' (JObject (allocated ''41'' ''42'')), store 41)"
    by (simp add: UserCreation_def finder_step context_json_def numerals request_def
        allocated_def)
  from saga_graph [of sampleTable samplePool] s
  have "\<exists>l. (''FindLastId'', l, ''CreateDynamoDBUser'') \<in> set (edges UserCreation)"
    unfolding UserCreation_def by blast
  with s have main: "step UserCreation None ''FindLastId'' (JObject request) (store 41) =
       (Next ''CreateDynamoDBUser'' (JObject (allocated ''41'' ''42'')), store 41) \<and>
     (\<exists>l. (''FindLastId'', l, ''CreateDynamoDBUser'') \<in> set (edges UserCreation))" by simp
  from main step_Pass [of sampleTable samplePool] show ?thesis by (simp add: UserCreation_def)
qed

subsection \<open>C8\<close>

text \<open>
  C8. Counter Corrector against the write transaction. For every \<open>previousUserId\<close> and
  \<open>userId\<close> in the document, the request of \<open>CorrectLastId\<close> is the \<open>Update\<close> item of
  the transaction of \<open>CreateDynamoDBUser\<close>: the same table, the same key
  \<open>USERMETADATA\<close>, the same condition \<open>LastId = :previousUserId\<close>, the same update
  \<open>SET LastId = :newUserId\<close> and the same values.
\<close>

theorem corrector_is_counter_half:
  assumes "number_at [''context'', ''previousUserId''] inp = Some p"
    and "number_at [''context'', ''userId''] inp = Some n"
  shows "parameters (buildCorrectLastId t) inp =
      Some (Params
        \<lparr>TableName = tableName t,
         Key = Some [(''PK'', S ''USERMETADATA''), (''SK'', S ''USERMETADATA'')],
         Item = None,
         ConditionExpression = Some (Equals ''LastId'' '':previousUserId''),
         UpdateExpression = Some (SET ''LastId'' '':newUserId''),
         ExpressionAttributeValues = [('':previousUserId'', N p), ('':newUserId'', N n)],
         ConsistentRead = False\<rparr>) \<and>
    (\<forall>x. parameters (buildCreateDynamoDBUser t) inp = Some x \<longrightarrow>
      (\<exists>put. x = TransactItems
         [Put put,
          Update
            \<lparr>TableName = tableName t,
             Key = Some [(''PK'', S ''USERMETADATA''), (''SK'', S ''USERMETADATA'')],
             Item = None,
             ConditionExpression = Some (Equals ''LastId'' '':previousUserId''),
             UpdateExpression = Some (SET ''LastId'' '':newUserId''),
             ExpressionAttributeValues = [('':previousUserId'', N p), ('':newUserId'', N n)],
             ConsistentRead = False\<rparr>]))"
proof -
  have c: "parameters (buildCorrectLastId t) inp = Some (Params (counter_update t p n))"
    using assms by (simp add: corrector_parameters)
  have w: "\<forall>x. parameters (buildCreateDynamoDBUser t) inp = Some x \<longrightarrow>
      (\<exists>put. x = TransactItems [Put put, Update (counter_update t p n)])"
    using assms by (auto simp: writer_parameters number_at_string split: option.splits)
  from c w show ?thesis unfolding counter_update_def by blast
qed

theorem corrector_is_counter_half_witness:
  "number_at [''context'', ''previousUserId''] (JObject (allocated ''41'' ''42'')) = Some 41 \<and>
   number_at [''context'', ''userId''] (JObject (allocated ''41'' ''42'')) = Some 42 \<and>
   parameters (buildCorrectLastId sampleTable) (JObject (allocated ''41'' ''42'')) =
     Some (Params (counter_update sampleTable 41 42)) \<and>
   parameters (buildCreateDynamoDBUser sampleTable) (JObject (allocated ''41'' ''42'')) =
     Some (TransactItems
       [Put (profile_put sampleTable
          (profile_item ''42'' ''Ada'' ''Lovelace'' ''ada@example.org'' ''5550100'')),
        Update (counter_update sampleTable 41 42)])"
proof -
  have p: "number_at [''context'', ''previousUserId''] (JObject (allocated ''41'' ''42'')) = Some 41"
    and n: "number_at [''context'', ''userId''] (JObject (allocated ''41'' ''42'')) = Some 42"
    by (simp_all add: allocated_numbers read_numerals)
  have w: "parameters (buildCreateDynamoDBUser sampleTable) (JObject (allocated ''41'' ''42'')) =
     Some (TransactItems
       [Put (profile_put sampleTable
          (profile_item ''42'' ''Ada'' ''Lovelace'' ''ada@example.org'' ''5550100'')),
        Update (counter_update sampleTable 41 42)])"
    by (simp add: writer_parameters allocated_paths allocated_numbers read_numerals)
  from corrector_is_counter_half [OF p n, of sampleTable] p n w
  show ?thesis by (simp add: counter_update_def)
qed

subsection \<open>C9\<close>

text \<open>
  C9. Identity Registrar. On a document whose \<open>$.context.userId\<close> is \<open>uid\<close> and whose
  \<open>$.emailAddress\<close> is \<open>email\<close>, \<open>CreateCognitoUser\<close> asks for a user named \<open>uid\<close>
  with the attributes \<open>email = email\<close> and \<open>email_verified = true\<close>, the latter a
  constant of the request; when the pool has no user of that name the account is created
  with these attributes and the machine goes on to \<open>Pass\<close>. Whenever an execution reaches
  the registration with this document, \<open>uid\<close> is the id it allocated, the numeral of the
  counter, and \<open>email\<close> is the \<open>emailAddress\<close> that the caller supplied.
\<close>

theorem registrar_request:
  assumes "string_at [''context'', ''userId''] doc = Some uid"
    and "string_at [''emailAddress''] doc = Some email"
  shows "parameters (buildCreateCognitoUser u) doc =
      Some (UserParams
        \<lparr>UserPoolId = userPoolId u,
         Username = uid,
         UserAttributes = [(''email'', email), (''email_verified'', ''true'')]\<rparr>) \<and>
    (userPool w uid = None \<longrightarrow>
       step (buildStateMachine t u) None ''CreateCognitoUser'' doc w =
         (Next ''Pass'' (user_response uid email),
          w\<lparr>userPool := (userPool w)(uid \<mapsto>
              [(''email'', email), (''email_verified'', ''true'')])\<rparr>)) \<and>
    (\<forall>n fs inp w0.
       run n (buildStateMachine t u) fs (start (buildStateMachine t u) inp w0) =
         (Next ''CreateCognitoUser'' doc, w) \<longrightarrow>
       (\<exists>c. uid = string_of_int (c + 1) \<and> lastId w = Some (c + 1)) \<and>
       string_at [''emailAddress''] inp = Some email)"
proof -
  have p: "parameters (buildCreateCognitoUser u) doc =
      Some (UserParams
        \<lparr>UserPoolId = userPoolId u,
         Username = uid,
         UserAttributes = [(''email'', email), (''email_verified'', ''true'')]\<rparr>)"
    using assms by (simp add: registrar_parameters)
  have s: "userPool w uid = None \<longrightarrow>
       step (buildStateMachine t u) None ''CreateCognitoUser'' doc w =
         (Next ''Pass'' (user_response uid email),
          w\<lparr>userPool := (userPool w)(uid \<mapsto>
              [(''email'', email), (''email_verified'', ''true'')])\<rparr>)"
    using exec_registrar [OF p, of w]
    by (simp add: step_CreateCognitoUser del: fun_upd_apply)
  have r: "\<forall>n fs inp w0.
       run n (buildStateMachine t u) fs (start (buildStateMachine t u) inp w0) =
         (Next ''CreateCognitoUser'' doc, w) \<longrightarrow>
       (\<exists>c. uid = string_of_int (c + 1) \<and> lastId w = Some (c + 1)) \<and>
       string_at [''emailAddress''] inp = Some email"
    using registration_reached [of _ t u _ _ _ doc w] assms by fastforce
  from p s r show ?thesis by blast
qed

theorem registrar_request_witness:
  "string_at [''context'', ''userId''] (JObject (allocated ''41'' ''42'')) = Some ''42'' \<and>
   string_at [''emailAddress''] (JObject (allocated ''41'' ''42'')) = Some ''ada@example.org'' \<and>
   run 2 UserCreation [] (start UserCreation (JObject request) (store 41)) =
     (Next ''CreateCognitoUser'' (JObject (allocated ''41'' ''42'')), committed_store) \<and>
   userPool committed_store ''42'' = None \<and>
   step UserCreation None ''CreateCognitoUser'' (JObject (allocated ''41'' ''42''))
     committed_store =
     (Next ''Pass'' (user_response ''42'' ''ada@example.org''),
      committed_store\<lparr>userPool := (userPool committed_store)(''42'' \<mapsto>
          [(''email'', ''ada@example.org''), (''email_verified'', ''true'')])\<rparr>) \<and>
   (\<exists>c. ''42'' = string_of_int (c + 1) \<and> lastId committed_store = Some (c + 1)) \<and>
   string_at [''emailAddress''] (JObject request) = Some ''ada@example.org''"
proof -
  have a: "string_at [''context'', ''userId''] (JObject (allocated ''41'' ''42'')) = Some ''42''"
    and b: "string_at [''emailAddress''] (JObject (allocated ''41'' ''42'')) =
      Some ''ada@example.org''"
    by (simp_all add: allocated_paths)
  have c: "userPool committed_store ''42'' = None" by (simp add: committed_store_def)
  from registrar_request [OF a b, of samplePool committed_store sampleTable]
    a b c two_steps_sample
  show ?thesis unfolding UserCreation_def by (simp del: fun_upd_apply) blast
qed

subsection \<open>C10\<close>

text \<open>
  C10. Both catchers write the caught error at \<open>$.error\<close> of the document of the failed
  step and change nothing else: the services are as they were, every path that does not
  start at \<open>error\<close> selects what it selected before, and so the requests of
  \<open>CorrectLastId\<close> and \<open>RollbackUser\<close>, which read \<open>$.context.previousUserId\<close> and
  \<open>$.context.userId\<close>, are the ones the failed step would have given.
\<close>

theorem catch_records_error_additively:
  assumes "step (buildStateMachine t u) f s inp w = (Next h out, w')"
    and "(s = ''CreateDynamoDBUser'' \<and> h = ''CorrectLastId'') \<or>
         (s = ''CreateCognitoUser'' \<and> h = ''RollbackUser'')"
  shows "w' = w \<and>
    (\<exists>e kvs. inp = JObject kvs \<and>
       out = JObject (AList.update ''error'' (error_json e) kvs) \<and>
       JsonPath [''error''] out = Some (JObject [(''Error'', JString e)])) \<and>
    (\<forall>k ks. k \<noteq> ''error'' \<longrightarrow> JsonPath (k # ks) out = JsonPath (k # ks) inp) \<and>
    parameters (buildCorrectLastId t) out = parameters (buildCorrectLastId t) inp \<and>
    parameters (buildRollbackUser t) out = parameters (buildRollbackUser t) inp"
proof -
  from assms obtain e where w: "w' = w"
    and out: "set_field ''error'' (error_json e) inp = Some out"
    using writer_caught [of t u f inp w out w'] registrar_caught [of t u f inp w out w']
    by blast
  from out obtain kvs where kvs: "inp = JObject kvs"
    "out = JObject (AList.update ''error'' (error_json e) kvs)"
    by (cases inp) auto
  have same: "\<forall>k ks. k \<noteq> ''error'' \<longrightarrow> JsonPath (k # ks) out = JsonPath (k # ks) inp"
    using set_field_other [OF out] by blast
  have err: "JsonPath [''error''] out = Some (JObject [(''Error'', JString e)])"
    using set_field_same [OF out] by (simp add: error_json_def)
  have c: "parameters (buildCorrectLastId t) out = parameters (buildCorrectLastId t) inp"
    by (simp add: corrector_parameters set_field_number_at [OF out] cong: option.case_cong)
  have r: "parameters (buildRollbackUser t) out = parameters (buildRollbackUser t) inp"
    using same by (simp add: rollback_parameters del: JsonPath.simps cong: option.case_cong)
  from w kvs same err c r show ?thesis by blast
qed

theorem catch_records_error_additively_witness:
  "step UserCreation (Some ''DynamoDb.TransactionCanceledException'') ''CreateDynamoDBUser''
     (JObject (allocated ''41'' ''42'')) (store 41) =
   (Next ''CorrectLastId''
     (JObject (allocated ''41'' ''42'' @
        [(''error'', JObject [(''Error'', JString ''DynamoDb.TransactionCanceledException'')])])),
    store 41) \<and>
   parameters (buildCorrectLastId sampleTable)
     (JObject (allocated ''41'' ''42'' @
        [(''error'', JObject [(''Error'', JString ''DynamoDb.TransactionCanceledException'')])])) =
   parameters (buildCorrectLastId sampleTable) (JObject (allocated ''41'' ''42'')) \<and>
   step UserCreation None ''CreateCognitoUser'' (JObject (allocated ''41'' ''42''))
     duplicate_store =
     (Next ''RollbackUser''
        (JObject (allocated ''41'' ''42'' @
           [(''error'', JObject [(''Error'',
              JString ''CognitoIdentityProvider.UsernameExistsException'')])])),
      duplicate_store) \<and>
   parameters (buildRollbackUser sampleTable)
     (JObject (allocated ''41'' ''42'' @
        [(''error'', JObject [(''Error'',
           JString ''CognitoIdentityProvider.UsernameExistsException'')])])) =
   parameters (buildRollbackUser sampleTable) (JObject (allocated ''41'' ''42''))"
proof -
  have main: "step UserCreation (Some ''DynamoDb.TransactionCanceledException'') ''CreateDynamoDBUser''
       (JObject (allocated ''41'' ''42'')) (store 41) =
     (Next ''CorrectLastId''
       (JObject (allocated ''41'' ''42'' @
          [(''error'', JObject [(''Error'', JString ''DynamoDb.TransactionCanceledException'')])])),
      store 41) \<and>
     parameters (buildCorrectLastId sampleTable)
       (JObject (allocated ''41'' ''42'' @
          [(''error'', JObject [(''Error'', JString ''DynamoDb.TransactionCanceledException'')])])) =
     parameters (buildCorrectLastId sampleTable) (JObject (allocated ''41'' ''42''))"
  using catch_records_error_additively [OF writer_fault_sample [unfolded UserCreation_def]]
      writer_fault_sample
    by simp
  from main registrar_caught_sample catch_records_error_additively [OF registrar_caught_sample [unfolded UserCreation_def]] show ?thesis by simp
qed

end
